theory Spec2Isabelle
  imports Main "HOL-Library.Word"
begin

section \<open>The connection core of rpc.go\<close>

text \<open>
  A shallow embedding of \<^verbatim>\<open>src/rpc/rpc.go\<close>: the message dispatcher of a
  Cap'n Proto connection (\<^verbatim>\<open>handleMessage\<close> and the handlers it calls),
  \<^verbatim>\<open>Bootstrap\<close>, \<^verbatim>\<open>Close\<close> and the cap-table functions.
  The connection is a record that every function takes and returns; an error return of
  the Go code is an \<open>err option\<close> (\<open>None\<close> is Go's nil error), a panic is
  the left injection of the result.
\<close>

subsection \<open>Identifiers and errors\<close>

type_synonym questionID = "32 word"
type_synonym answerID = "32 word"
type_synonym exportID = "32 word"
type_synonym importID = "32 word"
type_synonym embargoID = "32 word"

text \<open>\<^verbatim>\<open>capnp.Method\<close>, as far as rpc.go fills it.\<close>

datatype Method = Method (InterfaceID: "64 word") (MethodID: "16 word")

text \<open>
  The error an accessor of the generated schema code returns when a pointer of the
  message cannot be read (\<^verbatim>\<open>m.Finish()\<close>, \<^verbatim>\<open>ret.Results()\<close>, ...).
  \<open>WrongUnionMember\<close> stands for reading the body of a message as another kind
  than its tag; the dispatcher never does so.
\<close>

datatype decode_error = DecodeError nat | WrongUnionMember

text \<open>
  The error values of the package. The package-level error variables
  (\<^verbatim>\<open>ErrConnClosed\<close>, \<^verbatim>\<open>errShutdown\<close>, \<^verbatim>\<open>errUnimplemented\<close>,
  \<^verbatim>\<open>errQuestionReused\<close>, \<^verbatim>\<open>errNoMainInterface\<close>, \<^verbatim>\<open>errBadTarget\<close>,
  \<^verbatim>\<open>errDisembargoNonImport\<close>, \<^verbatim>\<open>errDisembargoMissingAnswer\<close>) are declared
  outside rpc.go; each is one constructor. The three \<^verbatim>\<open>fmt.Errorf\<close> values of
  rpc.go are \<open>ReturnUnknownQuestion\<close>, \<open>CapTableUnknownExport\<close>,
  \<open>CapTableUnknownAnswer\<close> and \<open>ReceiverReportedCanceled\<close>. \<open>toException\<close>
  is the wire exception written from an error, \<open>WireException\<close> one received.
\<close>

datatype err =
    ErrConnClosed
  | errShutdown
  | errUnimplemented
  | errQuestionReused
  | errNoMainInterface
  | errBadTarget
  | errDisembargoNonImport
  | errDisembargoMissingAnswer
  | ErrNullClient
  | Decode decode_error
  | ContextError nat
  | UserError nat
  | ReturnUnknownQuestion questionID
  | CapTableUnknownExport exportID
  | CapTableUnknownAnswer answerID
  | ReceiverReportedCanceled
  | Exception rpc_exception
  | MethodError Method err
  | bootstrapError err
  | questionError questionID "Method option" err
  | Abort "rpc_exception option"
and rpc_exception =
    WireException string
  | toException err

subsection \<open>Pointers, clients and wire messages\<close>

datatype PipelineOp = PipelineOp (Field: "16 word")

datatype PromisedAnswer_Op =
    PromisedAnswer_Op_noop
  | PromisedAnswer_Op_getPointerField "16 word"
  | PromisedAnswer_Op_unknown

text \<open>
  A capability as the connection sees it: nil, the proxy of an import, a local
  capability (named by a number), the pipeline client of an answer or of a question,
  or an error client.
\<close>

datatype Client =
    NilClient
  | ImportClient importID
  | LocalClient nat
  | AnswerPipeline answerID "PipelineOp list"
  | QuestionPipeline questionID "PipelineOp list"
  | ErrorClient err

text \<open>
  A pointer of a message: the pointer tree, and the capability table of the message
  it lives in (an interface pointer is an index into that table).
\<close>

datatype PtrTree =
    NullPtr
  | DataPtr nat
  | StructPtr "PtrTree list"
  | InterfacePtr nat
  | BadPtr decode_error

datatype Ptr = Ptr (tree: PtrTree) (CapTable: "Client list")

text \<open>
  The messages of the schema. A field read through an accessor that returns an error
  is a sum: \<open>Inl\<close> the decode error, \<open>Inr\<close> the value.
\<close>

datatype PromisedAnswer =
  PromisedAnswer (pa_questionId: "32 word")
                 (pa_transform: "decode_error + PromisedAnswer_Op list")

datatype MessageTarget =
    MessageTarget_importedCap "32 word"
  | MessageTarget_promisedAnswer "decode_error + PromisedAnswer"
  | MessageTarget_other

datatype CapDescriptor =
    CapDescriptor_none
  | CapDescriptor_senderHosted "32 word"
  | CapDescriptor_senderPromise "32 word"
  | CapDescriptor_receiverHosted "32 word"
  | CapDescriptor_receiverAnswer "decode_error + PromisedAnswer"
  | CapDescriptor_thirdPartyHosted

datatype Payload =
  Payload (capTable: "decode_error + CapDescriptor list")
          (content: "decode_error + PtrTree")

datatype Return_Which =
    Return_results "decode_error + Payload"
  | Return_exception "decode_error + rpc_exception"
  | Return_canceled
  | Return_resultsSentElsewhere
  | Return_takeFromOtherQuestion "32 word"
  | Return_acceptFromThirdParty

datatype Return =
  Return (answerId: "32 word") (releaseParamCaps: bool) (ret_which: Return_Which)

datatype Finish = Finish (fin_questionId: "32 word") (releaseResultCaps: bool)

datatype CallMsg =
  CallMsg (call_questionId: "32 word")
          (call_target: "decode_error + MessageTarget")
          (call_interfaceId: "64 word")
          (call_methodId: "16 word")
          (call_params: "decode_error + Payload")

datatype Release = Release (rel_id: "32 word") (referenceCount: "32 word")

datatype Disembargo_context =
    Disembargo_senderLoopback "32 word"
  | Disembargo_receiverLoopback "32 word"
  | Disembargo_accept
  | Disembargo_provide "32 word"

datatype Disembargo =
  Disembargo (dis_target: "decode_error + MessageTarget") (dis_context: Disembargo_context)

datatype Message =
    Message_unimplemented Message
  | Message_abort "decode_error + rpc_exception"
  | Message_return "decode_error + Return"
  | Message_finish "decode_error + Finish"
  | Message_bootstrap "decode_error + 32 word"
  | Message_call "decode_error + CallMsg"
  | Message_release "decode_error + Release"
  | Message_disembargo "decode_error + Disembargo"
  | Message_other nat

text \<open>\<^verbatim>\<open>capnp.Call\<close>: the method and the parameters of a local call.\<close>

datatype Call = Call (call_Method: Method) (call_Params: Ptr)

subsection \<open>The tables and the connection\<close>

datatype qstate = questionInProgress | questionResolved | questionCanceled

record question =
  q_id :: questionID
  q_method :: "Method option"
  paramCaps :: "exportID list"
  q_state :: qstate
  q_started :: bool

datatype resolution = Pending | Fulfilled Ptr | Rejected err

datatype pcall = pcall (pc_transform: "PipelineOp list") (pc_call: Call) (pc_a: answerID)

record answer =
  a_id :: answerID
  a_resolution :: resolution
  a_queue :: "pcall list"
  a_disembargoes :: "(embargoID \<times> MessageTarget) list"
  resultCaps :: "exportID list"

record export =
  e_client :: Client
  e_refs :: int

record impent =
  i_refs :: int

record idgen =
  g_count :: "32 word"
  g_free :: "32 word list"

text \<open>
  The user's transport: the messages handed to \<^verbatim>\<open>SendMessage\<close>, whether
  \<^verbatim>\<open>Close\<close> was called, and what the two calls return.
\<close>

record Transport =
  t_sent :: "Message list"
  t_closed :: bool
  t_sendErr :: "err option"
  t_closeErr :: "err option"

text \<open>
  What a handler does to objects that live outside the tables: a log line, the
  resolution of a question that was popped, the cancel function of an answer, a local
  call whose future answer is joined to an answer, an embargo that is lifted.
\<close>

datatype event =
    Log string "err option"
  | QuestionFulfill questionID Ptr
  | QuestionReject questionID qstate err
  | Cancel answerID
  | LocalCall Client Call answerID
  | EmbargoLifted embargoID

text \<open>
  \<^verbatim>\<open>Conn\<close>. The slices \<^verbatim>\<open>questions\<close>, \<^verbatim>\<open>exports\<close> and
  \<^verbatim>\<open>embargoes\<close> are indexed by ID with nil at a free slot: a partial map.
  \<open>manager\<close> is the manager's terminal error (\<open>None\<close> while the connection
  runs), \<open>out\<close> the queue of the send loop. \<open>mainFunc\<close> is the bootstrap
  factory, given by what it returns.
\<close>

record Conn =
  transport :: Transport
  mainFunc :: "(err + Client) option"
  manager :: "err option"
  out :: "Message list"
  questions :: "questionID \<rightharpoonup> question"
  questionID :: idgen
  exports :: "exportID \<rightharpoonup> export"
  exportID :: idgen
  embargoes :: "embargoID \<rightharpoonup> unit"
  embargoID :: idgen
  answers :: "answerID \<rightharpoonup> answer"
  imports_tab :: "importID \<rightharpoonup> impent"
  events :: "event list"

text \<open>A Go panic: a nil pointer dereference, or \<^verbatim>\<open>panic("unreachable")\<close>.\<close>

datatype go_panic = NilDereference | Unreachable

text \<open>
  A segment as \<^verbatim>\<open>makeCapTable\<close> uses it: the capability table of its message
  and what an allocation in its arena returns.
\<close>

record Segment =
  seg_CapTable :: "Client list"
  seg_allocErr :: "err option"

subsection \<open>The manager, the send queue and the log\<close>

text \<open>
  Modelled from the spec: \<^verbatim>\<open>manager.shutdown\<close> is declared outside rpc.go.
  Section 4.1: shutdown sets the terminal error at most once; the first caller wins
  and later callers observe that shutdown already happened. The result is Go's bool.
\<close>

definition shutdown :: "err \<Rightarrow> Conn \<Rightarrow> bool \<times> Conn" where
  "shutdown e c =
     (case manager c of
        None \<Rightarrow> (True, c\<lparr>manager := Some e\<rparr>)
      | Some _ \<Rightarrow> (False, c))"

text \<open>
  Modelled from the spec: \<^verbatim>\<open>Conn.sendMessage\<close> is declared outside rpc.go.
  Sections 4.2 and 4.6: the message is enqueued on the send queue; the enqueue fails
  when the connection is shutting down, and then returns the terminal error. The
  bound of the queue only delays the caller and is not modelled.
\<close>

definition sendMessage :: "Message \<Rightarrow> Conn \<Rightarrow> err option \<times> Conn" where
  "sendMessage m c =
     (case manager c of
        None \<Rightarrow> (None, c\<lparr>out := out c @ [m]\<rparr>)
      | Some e \<Rightarrow> (Some e, c))"

text \<open>\<^verbatim>\<open>log.Println\<close> and \<^verbatim>\<open>log.Print\<close>: a line of the log.\<close>

definition logln :: "string \<Rightarrow> err option \<Rightarrow> Conn \<Rightarrow> Conn" where
  "logln s e c = c\<lparr>events := events c @ [Log s e]\<rparr>"

subsection \<open>ID generators and the four tables\<close>

text \<open>
  Modelled from the spec: \<^verbatim>\<open>idgen\<close> is declared outside rpc.go. Section 3:
  each generator prefers reuse of released IDs.
\<close>

definition idgen_next :: "idgen \<Rightarrow> 32 word \<times> idgen" where
  "idgen_next g =
     (case g_free g of
        [] \<Rightarrow> (g_count g, g\<lparr>g_count := g_count g + 1\<rparr>)
      | i # rest \<Rightarrow> (i, g\<lparr>g_free := rest\<rparr>))"

definition idgen_remove :: "32 word \<Rightarrow> idgen \<Rightarrow> idgen" where
  "idgen_remove i g = g\<lparr>g_free := i # g_free g\<rparr>"

text \<open>
  Modelled from the spec: \<^verbatim>\<open>newQuestion\<close>, \<^verbatim>\<open>popQuestion\<close> and
  \<^verbatim>\<open>question.start\<close> are declared outside rpc.go. Section 4.4: new allocates a
  question, pop looks one up and removes it (nil when there is none), start signals
  that the send has been enqueued.
\<close>

definition newQuestion :: "Method option \<Rightarrow> Conn \<Rightarrow> question \<times> Conn" where
  "newQuestion meth c =
     (let (i, g) = idgen_next (questionID c);
          q = \<lparr>q_id = i, q_method = meth, paramCaps = [],
               q_state = questionInProgress, q_started = False\<rparr>
      in (q, c\<lparr>questions := (questions c)(i \<mapsto> q), questionID := g\<rparr>))"

definition popQuestion :: "questionID \<Rightarrow> Conn \<Rightarrow> question option \<times> Conn" where
  "popQuestion i c =
     (case questions c i of
        None \<Rightarrow> (None, c)
      | Some q \<Rightarrow>
          (Some q, c\<lparr>questions := (questions c)(i := None),
                       questionID := idgen_remove i (questionID c)\<rparr>))"

definition question_start :: "questionID \<Rightarrow> Conn \<Rightarrow> Conn" where
  "question_start i c =
     (case questions c i of
        None \<Rightarrow> c
      | Some q \<Rightarrow> c\<lparr>questions := (questions c)(i \<mapsto> q\<lparr>q_started := True\<rparr>)\<rparr>)"

text \<open>
  \<^verbatim>\<open>question.fulfill\<close> and \<^verbatim>\<open>question.reject\<close> act on a question that
  \<^verbatim>\<open>handleReturnMessage\<close> has already popped from the table: the call is recorded.
\<close>

definition question_fulfill :: "question \<Rightarrow> Ptr \<Rightarrow> Conn \<Rightarrow> Conn" where
  "question_fulfill q obj c = c\<lparr>events := events c @ [QuestionFulfill (q_id q) obj]\<rparr>"

definition question_reject :: "question \<Rightarrow> qstate \<Rightarrow> err \<Rightarrow> Conn \<Rightarrow> Conn" where
  "question_reject q st e c = c\<lparr>events := events c @ [QuestionReject (q_id q) st e]\<rparr>"

text \<open>
  Modelled from the spec: \<^verbatim>\<open>findExport\<close> and \<^verbatim>\<open>releaseExport\<close> are
  declared outside rpc.go. Section 3, Export: the entry is deleted, and its slot
  returned to the ID pool, when a release drops the count to zero; an unknown ID has
  no entry to release. rpc.go uses no result of \<^verbatim>\<open>releaseExport\<close>.
\<close>

definition findExport :: "exportID \<Rightarrow> Conn \<Rightarrow> export option" where
  "findExport i c = exports c i"

definition releaseExport :: "exportID \<Rightarrow> int \<Rightarrow> Conn \<Rightarrow> Conn" where
  "releaseExport i n c =
     (case findExport i c of
        None \<Rightarrow> c
      | Some e \<Rightarrow>
          if e_refs e - n > 0
          then c\<lparr>exports := (exports c)(i \<mapsto> e\<lparr>e_refs := e_refs e - n\<rparr>)\<rparr>
          else c\<lparr>exports := (exports c)(i := None),
                  exportID := idgen_remove i (exportID c)\<rparr>)"

text \<open>
  The loop \<^verbatim>\<open>for _, id := range caps { c.releaseExport(id, 1) }\<close> of
  \<^verbatim>\<open>handleReturnMessage\<close> and of the finish case of \<^verbatim>\<open>handleMessage\<close>.
\<close>

definition releaseExports :: "exportID list \<Rightarrow> Conn \<Rightarrow> Conn" where
  "releaseExports ids c = fold (\<lambda>i. releaseExport i 1) ids c"

text \<open>
  Modelled from the spec: \<^verbatim>\<open>addImport\<close> is declared outside rpc.go.
  Section 4.3.2: find or create the import entry, increment its count by one, and
  give its proxy client.
\<close>

definition addImport :: "importID \<Rightarrow> Conn \<Rightarrow> Client \<times> Conn" where
  "addImport i c =
     (let n = (case imports_tab c i of None \<Rightarrow> 0 | Some e \<Rightarrow> i_refs e)
      in (ImportClient i, c\<lparr>imports_tab := (imports_tab c)(i \<mapsto> \<lparr>i_refs = n + 1\<rparr>)\<rparr>))"

text \<open>
  Modelled from the spec: the embargo registry is declared outside rpc.go.
  Section 4.5: look the embargo up by its ID, complete it and recycle the ID.
\<close>

definition disembargo :: "embargoID \<Rightarrow> Conn \<Rightarrow> Conn" where
  "disembargo i c =
     (case embargoes c i of
        None \<Rightarrow> c
      | Some _ \<Rightarrow>
          c\<lparr>embargoes := (embargoes c)(i := None),
             embargoID := idgen_remove i (embargoID c),
             events := events c @ [EmbargoLifted i]\<rparr>)"

subsection \<open>Message builders of rpc.go\<close>

definition newUnimplementedMessage :: "Message \<Rightarrow> Message" where
  "newUnimplementedMessage m = Message_unimplemented m"

definition newFinishMessage :: "questionID \<Rightarrow> bool \<Rightarrow> Message" where
  "newFinishMessage i release = Message_finish (Inr (Finish i release))"

definition newAbortMessage :: "err \<Rightarrow> Message" where
  "newAbortMessage e = Message_abort (Inr (toException e))"

text \<open>
  \<^verbatim>\<open>newReturnMessage\<close> followed by \<^verbatim>\<open>setReturnException\<close>: a return with
  \<^verbatim>\<open>releaseParamCaps\<close> false that carries the exception of an error.
\<close>

definition newReturnMessage :: "answerID \<Rightarrow> Return_Which \<Rightarrow> Message" where
  "newReturnMessage i w = Message_return (Inr (Return i False w))"

definition setReturnException :: "err \<Rightarrow> Return_Which" where
  "setReturnException e = Return_exception (Inr (toException e))"

text \<open>
  \<^verbatim>\<open>newDisembargoMessage\<close> leaves the target blank (the zero target is
  \<^verbatim>\<open>importedCap\<close> 0) and panics on a context other than the two loopbacks.
\<close>

datatype Disembargo_context_Which =
    Which_senderLoopback
  | Which_receiverLoopback
  | Which_accept
  | Which_provide

definition newDisembargoMessage ::
  "Disembargo_context_Which \<Rightarrow> embargoID \<Rightarrow> go_panic + Disembargo" where
  "newDisembargoMessage which i =
     (case which of
        Which_senderLoopback \<Rightarrow>
          Inr (Disembargo (Inr (MessageTarget_importedCap 0)) (Disembargo_senderLoopback i))
      | Which_receiverLoopback \<Rightarrow>
          Inr (Disembargo (Inr (MessageTarget_importedCap 0)) (Disembargo_receiverLoopback i))
      | _ \<Rightarrow> Inl Unreachable)"

definition abort :: "err \<Rightarrow> Conn \<Rightarrow> Conn" where
  "abort e c = snd (shutdown e (snd (sendMessage (newAbortMessage e) c)))"

fun promisedAnswerOpsToTransform :: "PromisedAnswer_Op list \<Rightarrow> PipelineOp list" where
  "promisedAnswerOpsToTransform [] = []"
| "promisedAnswerOpsToTransform (PromisedAnswer_Op_getPointerField f # ops) =
     PipelineOp f # promisedAnswerOpsToTransform ops"
| "promisedAnswerOpsToTransform (_ # ops) = promisedAnswerOpsToTransform ops"

text \<open>
  \<^verbatim>\<open>transformToPromisedAnswer\<close>, on a segment that can hold the list: one
  \<^verbatim>\<open>getPointerField\<close> per operation.
\<close>

definition transformToPromisedAnswer :: "PipelineOp list \<Rightarrow> PromisedAnswer_Op list" where
  "transformToPromisedAnswer transform =
     map (\<lambda>p. PromisedAnswer_Op_getPointerField (Field p)) transform"

subsection \<open>Resolved pointers\<close>

text \<open>
  Modelled from the spec: \<^verbatim>\<open>capnp.TransformPtr\<close> is declared outside rpc.go.
  Section 4.3.1: a transform is an ordered list of pointer-field indices selecting
  sub-structures of the result, and the empty transform is the result root. A field a
  struct does not have is the null pointer; a pointer that cannot be read is the error.
\<close>

fun TransformPtr :: "PtrTree \<Rightarrow> PipelineOp list \<Rightarrow> decode_error + PtrTree" where
  "TransformPtr p [] = Inr p"
| "TransformPtr (StructPtr fs) (p # ops) =
     (if unat (Field p) < length fs then TransformPtr (fs ! unat (Field p)) ops
      else TransformPtr NullPtr ops)"
| "TransformPtr (BadPtr e) (p # ops) = Inl e"
| "TransformPtr _ (p # ops) = TransformPtr NullPtr ops"

text \<open>\<^verbatim>\<open>out.Interface().Client()\<close>: nil unless the pointer is an interface
  pointer whose index is in the capability table of its message.\<close>

definition interfaceClient :: "Ptr \<Rightarrow> Client" where
  "interfaceClient p =
     (case tree p of
        InterfacePtr i \<Rightarrow> (if i < length (CapTable p) then CapTable p ! i else NilClient)
      | _ \<Rightarrow> NilClient)"

definition clientFromResolution :: "PipelineOp list \<Rightarrow> Ptr \<Rightarrow> err option \<Rightarrow> Client" where
  "clientFromResolution transform obj e =
     (case e of
        Some e' \<Rightarrow> ErrorClient e'
      | None \<Rightarrow>
          (case TransformPtr (tree obj) transform of
             Inl d \<Rightarrow> ErrorClient (Decode d)
           | Inr t \<Rightarrow>
               (let cl = interfaceClient (Ptr t (CapTable obj))
                in if cl = NilClient then ErrorClient ErrNullClient else cl)))"

text \<open>
  \<^verbatim>\<open>c.lockedCall(client, cl)\<close> followed by \<^verbatim>\<open>go joinAnswer(result, answer)\<close>:
  a local call is started and its future answer is joined to the answer \<open>result\<close>.
\<close>

definition lockedCall_join :: "Client \<Rightarrow> Call \<Rightarrow> answerID \<Rightarrow> Conn \<Rightarrow> Conn" where
  "lockedCall_join client cl result c = c\<lparr>events := events c @ [LocalCall client cl result]\<rparr>"

subsection \<open>Outbound capability tables\<close>

text \<open>
  Modelled from the spec: \<^verbatim>\<open>descriptorForClient\<close> is declared outside rpc.go.
  Section 4.3.3: an existing import of this connection is \<^verbatim>\<open>receiverHosted\<close>; the
  pipeline of an outstanding question is \<^verbatim>\<open>receiverAnswer\<close>; for any other
  client an export entry is allocated or reused, its count incremented, and the
  descriptor is \<^verbatim>\<open>senderHosted\<close>.
\<close>

definition addExport :: "Client \<Rightarrow> Conn \<Rightarrow> exportID \<times> Conn" where
  "addExport client c =
     (case find (\<lambda>i. map_option e_client (exports c i) = Some client)
                (map word_of_nat [0 ..< unat (g_count (exportID c))]) of
        Some i \<Rightarrow>
          (i, c\<lparr>exports := (exports c)(i \<mapsto>
                  \<lparr>e_client = client, e_refs = (case exports c i of None \<Rightarrow> 0 | Some e \<Rightarrow> e_refs e) + 1\<rparr>)\<rparr>)
      | None \<Rightarrow>
          (let (i, g) = idgen_next (exportID c)
           in (i, c\<lparr>exports := (exports c)(i \<mapsto> \<lparr>e_client = client, e_refs = 1\<rparr>),
                     exportID := g\<rparr>)))"

definition descriptorForClient :: "Client \<Rightarrow> Conn \<Rightarrow> CapDescriptor \<times> Conn" where
  "descriptorForClient client c =
     (case client of
        ImportClient i \<Rightarrow>
          (if imports_tab c i \<noteq> None then (CapDescriptor_receiverHosted i, c)
           else (let (e, c') = addExport client c in (CapDescriptor_senderHosted e, c')))
      | QuestionPipeline q transform \<Rightarrow>
          (if questions c q \<noteq> None
           then (CapDescriptor_receiverAnswer
                   (Inr (PromisedAnswer q (Inr (transformToPromisedAnswer transform)))), c)
           else (let (e, c') = addExport client c in (CapDescriptor_senderHosted e, c')))
      | _ \<Rightarrow> (let (e, c') = addExport client c in (CapDescriptor_senderHosted e, c')))"

text \<open>The loop of \<^verbatim>\<open>makeCapTable\<close> over the capability table of the message.\<close>

fun makeDescriptors :: "Client list \<Rightarrow> Conn \<Rightarrow> CapDescriptor list \<times> Conn" where
  "makeDescriptors [] c = ([], c)"
| "makeDescriptors (client # rest) c =
     (if client = NilClient
      then (let (ds, c') = makeDescriptors rest c in (CapDescriptor_none # ds, c'))
      else (let (d, c1) = descriptorForClient client c;
                (ds, c2) = makeDescriptors rest c1
            in (d # ds, c2)))"

text \<open>
  \<^verbatim>\<open>makeCapTable\<close>. \<^verbatim>\<open>NewCapDescriptor_List\<close> returns what an allocation in
  the segment returns. On its error the function returns the zero list and a nil error.
\<close>

definition NewCapDescriptor_List :: "Segment \<Rightarrow> nat \<Rightarrow> err option" where
  "NewCapDescriptor_List s n = seg_allocErr s"

definition makeCapTable :: "Segment \<Rightarrow> Conn \<Rightarrow> (CapDescriptor list \<times> err option) \<times> Conn" where
  "makeCapTable s c =
     (let msgtab = seg_CapTable s
      in case NewCapDescriptor_List s (length msgtab) of
           Some e \<Rightarrow> (([], None), c)
         | None \<Rightarrow> (let (t, c') = makeDescriptors msgtab c in ((t, None), c')))"

text \<open>
  \<^verbatim>\<open>fillParams\<close>, on a payload whose segment is \<open>s\<close>. \<open>placed\<close> is what
  \<^verbatim>\<open>cl.PlaceParams\<close> returns, \<open>setContent\<close> and \<open>setCapTable\<close> what the two
  setters of the payload return (all three are of the capnp package). The result is the
  error and the payload as it stands: each field is set once its setter succeeded.
\<close>

record PayloadBuilder =
  pb_content :: "PtrTree option"
  pb_capTable :: "CapDescriptor list option"

definition fillParams ::
  "Segment \<Rightarrow> err + PtrTree \<Rightarrow> err option \<Rightarrow> err option \<Rightarrow> PayloadBuilder \<Rightarrow> Conn
     \<Rightarrow> (err option \<times> PayloadBuilder) \<times> Conn" where
  "fillParams s placed setContent setCapTable payload c =
     (case placed of
        Inl e \<Rightarrow> ((Some e, payload), c)
      | Inr params \<Rightarrow>
          (case setContent of
             Some e \<Rightarrow> ((Some e, payload), c)
           | None \<Rightarrow>
               (let p1 = payload\<lparr>pb_content := Some params\<rparr>
                in case makeCapTable s c of
                     ((ctab, Some e), c') \<Rightarrow> ((Some e, p1), c')
                   | ((ctab, None), c') \<Rightarrow>
                       (case setCapTable of
                          Some e \<Rightarrow> ((Some e, p1), c')
                        | None \<Rightarrow> ((None, p1\<lparr>pb_capTable := Some ctab\<rparr>), c')))))"

subsection \<open>The answer table\<close>

text \<open>
  Modelled from the spec: \<^verbatim>\<open>insertAnswer\<close>, \<^verbatim>\<open>popAnswer\<close>,
  \<^verbatim>\<open>answer.peek\<close>, \<^verbatim>\<open>answer.pipelineClient\<close>, \<^verbatim>\<open>answer.queueCall\<close>
  and \<^verbatim>\<open>answer.queueDisembargo\<close> are declared outside rpc.go. Sections 3, 4.3
  and 4.5: insert a new answer at the ID, nil when the ID is in use; pop looks an answer
  up and removes it; a pending answer queues pipelined calls, and queues a disembargo
  behind them, while a resolved answer has nothing left to embargo.
\<close>

definition insertAnswer :: "answerID \<Rightarrow> Conn \<Rightarrow> answer option \<times> Conn" where
  "insertAnswer i c =
     (case answers c i of
        Some _ \<Rightarrow> (None, c)
      | None \<Rightarrow>
          (let a = \<lparr>a_id = i, a_resolution = Pending, a_queue = [],
                    a_disembargoes = [], resultCaps = []\<rparr>
           in (Some a, c\<lparr>answers := (answers c)(i \<mapsto> a)\<rparr>)))"

definition popAnswer :: "answerID \<Rightarrow> Conn \<Rightarrow> answer option \<times> Conn" where
  "popAnswer i c = (answers c i, c\<lparr>answers := (answers c)(i := None)\<rparr>)"

definition peek :: "answer \<Rightarrow> Ptr \<times> err option \<times> bool" where
  "peek a =
     (case a_resolution a of
        Pending \<Rightarrow> (Ptr NullPtr [], None, False)
      | Fulfilled obj \<Rightarrow> (obj, None, True)
      | Rejected e \<Rightarrow> (Ptr NullPtr [], Some e, True))"

definition pipelineClient :: "answer \<Rightarrow> PipelineOp list \<Rightarrow> Client" where
  "pipelineClient a transform = AnswerPipeline (a_id a) transform"

definition queueCall :: "answerID \<Rightarrow> pcall \<Rightarrow> Conn \<Rightarrow> err option \<times> Conn" where
  "queueCall i pc c =
     (case answers c i of
        None \<Rightarrow> (None, c)
      | Some a \<Rightarrow> (None, c\<lparr>answers := (answers c)(i \<mapsto> a\<lparr>a_queue := a_queue a @ [pc]\<rparr>)\<rparr>))"

definition queueDisembargo ::
  "answerID \<Rightarrow> PipelineOp list \<Rightarrow> embargoID \<Rightarrow> MessageTarget \<Rightarrow> Conn
     \<Rightarrow> (bool \<times> err option) \<times> Conn" where
  "queueDisembargo i transform e target c =
     (case answers c i of
        None \<Rightarrow> ((False, None), c)
      | Some a \<Rightarrow>
          (if a_resolution a = Pending
           then ((True, None),
                 c\<lparr>answers := (answers c)(i \<mapsto>
                      a\<lparr>a_disembargoes := a_disembargoes a @ [(e, target)]\<rparr>)\<rparr>)
           else ((False, None), c)))"

text \<open>The cancel function that \<^verbatim>\<open>insertAnswer\<close> stored in the answer is called.\<close>

definition cancel :: "answerID \<Rightarrow> Conn \<Rightarrow> Conn" where
  "cancel i c = c\<lparr>events := events c @ [Cancel i]\<rparr>"

text \<open>
  Modelled from the spec: \<^verbatim>\<open>answer.fulfill\<close> and \<^verbatim>\<open>answer.reject\<close> are
  declared outside rpc.go. Sections 3, 4.3.3 and 7: the resolution slot is set; the
  peer receives a return with the results (their capability table built as for every
  outbound payload, its exports kept as the result caps) or with the exception; then
  the queued pipelined calls are dispatched to the resolved target in queue order and
  the disembargoes drain last. The result is what sending the return gave.
\<close>

definition drainQueue :: "answer \<Rightarrow> Ptr \<Rightarrow> err option \<Rightarrow> Conn \<Rightarrow> Conn" where
  "drainQueue a obj e c =
     (let c1 = fold (\<lambda>pc. lockedCall_join (clientFromResolution (pc_transform pc) obj e)
                               (pc_call pc) (pc_a pc)) (a_queue a) c
      in fold (\<lambda>d c'. snd (sendMessage
                 (Message_disembargo (Inr (Disembargo (Inr (snd d))
                    (Disembargo_receiverLoopback (fst d))))) c'))
           (a_disembargoes a) c1)"

definition answer_reject :: "answerID \<Rightarrow> err \<Rightarrow> Conn \<Rightarrow> err option \<times> Conn" where
  "answer_reject i e c =
     (case answers c i of
        None \<Rightarrow> (None, c)
      | Some a \<Rightarrow>
          (let c1 = c\<lparr>answers := (answers c)(i \<mapsto>
                       a\<lparr>a_resolution := Rejected e, a_queue := [], a_disembargoes := []\<rparr>)\<rparr>;
               (r, c2) = sendMessage (newReturnMessage i (setReturnException e)) c1
           in (r, drainQueue a (Ptr NullPtr []) (Some e) c2)))"

definition answer_fulfill :: "answerID \<Rightarrow> Ptr \<Rightarrow> Conn \<Rightarrow> err option \<times> Conn" where
  "answer_fulfill i obj c =
     (case answers c i of
        None \<Rightarrow> (None, c)
      | Some a \<Rightarrow>
          (let ((ctab, _), c1) =
                 makeCapTable \<lparr>seg_CapTable = CapTable obj, seg_allocErr = None\<rparr> c;
               caps = concat (map (\<lambda>d. case d of CapDescriptor_senderHosted x \<Rightarrow> [x] | _ \<Rightarrow> []) ctab);
               c2 = c1\<lparr>answers := (answers c1)(i \<mapsto>
                       a\<lparr>a_resolution := Fulfilled obj, a_queue := [], a_disembargoes := [],
                         resultCaps := caps\<rparr>)\<rparr>;
               (r, c3) = sendMessage
                   (newReturnMessage i (Return_results (Inr (Payload (Inr ctab) (Inr (tree obj)))))) c2
           in (r, drainQueue a obj None c3)))"

subsection \<open>Inbound capability tables\<close>

text \<open>
  The loop of \<^verbatim>\<open>populateMessageCapTable\<close>: \<open>caps\<close> is the capability table of
  the message so far; each descriptor adds one client or ends the loop with an error.
\<close>

fun populateCaps ::
  "CapDescriptor list \<Rightarrow> Client list \<Rightarrow> Conn \<Rightarrow> err option \<times> Client list \<times> Conn" where
  "populateCaps [] caps c = (None, caps, c)"
| "populateCaps (CapDescriptor_none # ds) caps c = populateCaps ds (caps @ [NilClient]) c"
| "populateCaps (CapDescriptor_senderHosted i # ds) caps c =
     (let (client, c') = addImport i c in populateCaps ds (caps @ [client]) c')"
| "populateCaps (CapDescriptor_senderPromise i # ds) caps c =
     (let (client, c') = addImport i c in populateCaps ds (caps @ [client]) c')"
| "populateCaps (CapDescriptor_receiverHosted i # ds) caps c =
     (case findExport i c of
        None \<Rightarrow> (Some (CapTableUnknownExport i), caps, c)
      | Some e \<Rightarrow> populateCaps ds (caps @ [e_client e]) c)"
| "populateCaps (CapDescriptor_receiverAnswer x # ds) caps c =
     (case x of
        Inl d \<Rightarrow> (Some (Decode d), caps, c)
      | Inr recvAns \<Rightarrow>
          (case answers c (pa_questionId recvAns) of
             None \<Rightarrow> (Some (CapTableUnknownAnswer (pa_questionId recvAns)), caps, c)
           | Some a \<Rightarrow>
               (case pa_transform recvAns of
                  Inl d \<Rightarrow> (Some (Decode d), caps, c)
                | Inr recvTransform \<Rightarrow>
                    populateCaps ds
                      (caps @ [pipelineClient a (promisedAnswerOpsToTransform recvTransform)]) c)))"
| "populateCaps (CapDescriptor_thirdPartyHosted # ds) caps c =
     (Some errUnimplemented, caps, logln ''rpc: unknown capability type'' None c)"

definition populateMessageCapTable ::
  "Payload \<Rightarrow> Conn \<Rightarrow> err option \<times> Client list \<times> Conn" where
  "populateMessageCapTable payload c =
     (case capTable payload of
        Inl d \<Rightarrow> (Some (Decode d), [], c)
      | Inr ctab \<Rightarrow> populateCaps ctab [] c)"

subsection \<open>The handlers of rpc.go\<close>

text \<open>
  The accessors \<^verbatim>\<open>m.Return()\<close>, \<^verbatim>\<open>m.Call()\<close> and \<^verbatim>\<open>m.Disembargo()\<close>.
  \<^verbatim>\<open>handleMessage\<close> calls each handler on a message of its own kind only.
\<close>

definition Return_of :: "Message \<Rightarrow> decode_error + Return" where
  "Return_of m = (case m of Message_return r \<Rightarrow> r | _ \<Rightarrow> Inl WrongUnionMember)"

definition Call_of :: "Message \<Rightarrow> decode_error + CallMsg" where
  "Call_of m = (case m of Message_call r \<Rightarrow> r | _ \<Rightarrow> Inl WrongUnionMember)"

definition Disembargo_of :: "Message \<Rightarrow> decode_error + Disembargo" where
  "Disembargo_of m = (case m of Message_disembargo r \<Rightarrow> r | _ \<Rightarrow> Inl WrongUnionMember)"

text \<open>\<^verbatim>\<open>copyRPCMessage\<close> copies the message out of the transport's buffer.\<close>

definition copyRPCMessage :: "Message \<Rightarrow> Message" where
  "copyRPCMessage m = m"

text \<open>\<^verbatim>\<open>copyAbort\<close>: the abort value, and the decode error if there is one.\<close>

definition copyAbort :: "decode_error + rpc_exception \<Rightarrow> err \<times> err option" where
  "copyAbort x =
     (case x of
        Inl d \<Rightarrow> (Abort None, Some (Decode d))
      | Inr exc \<Rightarrow> (Abort (Some exc), None))"

definition handleReturnMessage :: "Message \<Rightarrow> Conn \<Rightarrow> err option \<times> Conn" where
  "handleReturnMessage m c =
     (case Return_of m of
        Inl d \<Rightarrow> (Some (Decode d), c)
      | Inr ret \<Rightarrow>
          (let i = answerId ret in
           case popQuestion i c of
             (None, c1) \<Rightarrow> (Some (ReturnUnknownQuestion i), c1)
           | (Some q, c1) \<Rightarrow>
               (let c2 = (if releaseParamCaps ret then releaseExports (paramCaps q) c1 else c1) in
                if q_state q = questionCanceled then (None, c2)
                else
                  (case ret_which ret of
                     Return_results r \<Rightarrow>
                       (case r of
                          Inl d \<Rightarrow> (Some (Decode d), c2)
                        | Inr results \<Rightarrow>
                            (case populateMessageCapTable results c2 of
                               (Some e, caps, c3) \<Rightarrow>
                                 (if e = errUnimplemented
                                  then (Some errUnimplemented,
                                        snd (sendMessage (newUnimplementedMessage m) c3))
                                  else (Some e, abort e c3))
                             | (None, caps, c3) \<Rightarrow>
                                 (case content results of
                                    Inl d \<Rightarrow> (Some (Decode d), c3)
                                  | Inr t \<Rightarrow>
                                      (None, snd (sendMessage (newFinishMessage i False)
                                                    (question_fulfill q (Ptr t caps) c3))))))
                   | Return_exception x \<Rightarrow>
                       (case x of
                          Inl d \<Rightarrow> (Some (Decode d), c2)
                        | Inr exc \<Rightarrow>
                            (let e = (case q_method q of
                                        Some meth \<Rightarrow> MethodError meth (Exception exc)
                                      | None \<Rightarrow> bootstrapError (Exception exc))
                             in (None, snd (sendMessage (newFinishMessage i True)
                                              (question_reject q questionResolved e c2)))))
                   | Return_canceled \<Rightarrow>
                       (let e = questionError i (q_method q) ReceiverReportedCanceled
                        in (None, question_reject q questionResolved e (logln [] (Some e) c2)))
                   | _ \<Rightarrow>
                       (Some errUnimplemented,
                        snd (sendMessage (newUnimplementedMessage m) c2))))))"

text \<open>
  \<^verbatim>\<open>handleBootstrapMessage\<close>. The deferred \<^verbatim>\<open>cancel()\<close> runs when the
  function returns; once \<^verbatim>\<open>insertAnswer\<close> has stored it, it is the answer's.
\<close>

definition handleBootstrapMessage :: "answerID \<Rightarrow> Conn \<Rightarrow> err option \<times> Conn" where
  "handleBootstrapMessage i c =
     (case insertAnswer i c of
        (None, c1) \<Rightarrow> sendMessage (newReturnMessage i (setReturnException errQuestionReused)) c1
      | (Some a, c1) \<Rightarrow>
          (let (r, c2) =
                 (case mainFunc c1 of
                    None \<Rightarrow> answer_reject i errNoMainInterface c1
                  | Some (Inl _) \<Rightarrow> answer_reject i errNoMainInterface c1
                  | Some (Inr main) \<Rightarrow> answer_fulfill i (Ptr (InterfacePtr 0) [main]) c1)
           in (r, cancel i c2)))"

definition routeCallMessage ::
  "answerID \<Rightarrow> MessageTarget \<Rightarrow> Call \<Rightarrow> Conn \<Rightarrow> go_panic + (err option \<times> Conn)" where
  "routeCallMessage result mt cl c =
     (case mt of
        MessageTarget_importedCap i \<Rightarrow>
          (case findExport i c of
             None \<Rightarrow> Inr (Some errBadTarget, c)
           | Some e \<Rightarrow> Inr (None, lockedCall_join (e_client e) cl result c))
      | MessageTarget_promisedAnswer x \<Rightarrow>
          (case x of
             Inl d \<Rightarrow> Inr (Some (Decode d), c)
           | Inr mpromise \<Rightarrow>
               (let i = pa_questionId mpromise in
                if i = result then Inr (Some errBadTarget, c)
                else
                  (case answers c i of
                     None \<Rightarrow> Inr (Some errBadTarget, c)
                   | Some pa \<Rightarrow>
                       (case pa_transform mpromise of
                          Inl d \<Rightarrow> Inr (Some (Decode d), c)
                        | Inr mtrans \<Rightarrow>
                            (let transform = promisedAnswerOpsToTransform mtrans in
                             case peek pa of
                               (obj, e, True) \<Rightarrow>
                                 Inr (None, lockedCall_join (clientFromResolution transform obj e)
                                              cl result c)
                             | (obj, e, False) \<Rightarrow>
                                 Inr (queueCall i (pcall transform cl result) c))))))
      | MessageTarget_other \<Rightarrow> Inl Unreachable)"

definition handleCallMessage :: "Message \<Rightarrow> Conn \<Rightarrow> go_panic + (err option \<times> Conn)" where
  "handleCallMessage m c =
     (case Call_of m of
        Inl d \<Rightarrow> Inr (Some (Decode d), c)
      | Inr mcall \<Rightarrow>
          (case call_target mcall of
             Inl d \<Rightarrow> Inr (Some (Decode d), c)
           | Inr mt \<Rightarrow>
               (if mt = MessageTarget_other
                then Inr (sendMessage (newUnimplementedMessage m) c)
                else
                  (case call_params mcall of
                     Inl d \<Rightarrow> Inr (Some (Decode d), c)
                   | Inr mparams \<Rightarrow>
                       (case populateMessageCapTable mparams c of
                          (Some e, caps, c1) \<Rightarrow>
                            (if e = errUnimplemented
                             then Inr (sendMessage (newUnimplementedMessage m) c1)
                             else Inr (Some e, abort e c1))
                        | (None, caps, c1) \<Rightarrow>
                            (let i = call_questionId mcall in
                             case insertAnswer i c1 of
                               (None, c2) \<Rightarrow> Inr (Some errQuestionReused, abort errQuestionReused c2)
                             | (Some a, c2) \<Rightarrow>
                                 (let meth = Method (call_interfaceId mcall) (call_methodId mcall) in
                                  case content mparams of
                                    Inl d \<Rightarrow> Inr (Some (Decode d), c2)
                                  | Inr paramContent \<Rightarrow>
                                      (let cl = Call meth (Ptr paramContent caps) in
                                       case routeCallMessage i mt cl c2 of
                                         Inl p \<Rightarrow> Inl p
                                       | Inr (Some e, c3) \<Rightarrow> Inr (answer_reject i e c3)
                                       | Inr (None, c3) \<Rightarrow> Inr (None, c3)))))))))"

text \<open>
  \<^verbatim>\<open>handleDisembargoMessage\<close>. The reply is built by
  \<^verbatim>\<open>newDisembargoMessage\<close> and given the target of the request; setting a field
  of a fresh message does not fail.
\<close>

definition handleDisembargoMessage ::
  "Message \<Rightarrow> Conn \<Rightarrow> go_panic + (err option \<times> Conn)" where
  "handleDisembargoMessage msg c =
     (case Disembargo_of msg of
        Inl d \<Rightarrow> Inr (Some (Decode d), c)
      | Inr dm \<Rightarrow>
          (case dis_target dm of
             Inl d \<Rightarrow> Inr (Some (Decode d), c)
           | Inr dtarget \<Rightarrow>
               (case dis_context dm of
                  Disembargo_senderLoopback i \<Rightarrow>
                    (case dtarget of
                       MessageTarget_promisedAnswer x \<Rightarrow>
                         (case x of
                            Inl d \<Rightarrow> Inr (Some (Decode d), c)
                          | Inr dpa \<Rightarrow>
                              (let aid = pa_questionId dpa in
                               case answers c aid of
                                 None \<Rightarrow> Inr (Some errDisembargoMissingAnswer, c)
                               | Some a \<Rightarrow>
                                   (case pa_transform dpa of
                                      Inl d \<Rightarrow> Inr (Some (Decode d), c)
                                    | Inr dtrans \<Rightarrow>
                                        (let transform = promisedAnswerOpsToTransform dtrans in
                                         case queueDisembargo aid transform i dtarget c of
                                           ((queued, Some e), c1) \<Rightarrow> Inr (Some e, c1)
                                         | ((queued, None), c1) \<Rightarrow>
                                             (if \<not> queued
                                              then
                                                (case newDisembargoMessage Which_receiverLoopback i of
                                                   Inl p \<Rightarrow> Inl p
                                                 | Inr rd \<Rightarrow>
                                                     Inr (None, snd (sendMessage
                                                       (Message_disembargo
                                                          (Inr (Disembargo (Inr dtarget) (dis_context rd))))
                                                       c1)))
                                              else Inr (None, c1))))))
                     | _ \<Rightarrow> Inr (Some errDisembargoNonImport, c))
                | Disembargo_receiverLoopback i \<Rightarrow> Inr (None, disembargo i c)
                | _ \<Rightarrow> Inr (None, snd (sendMessage (newUnimplementedMessage msg) c)))))"

text \<open>
  \<^verbatim>\<open>handleMessage\<close>, run by the receive loop on one message. The mutex is free
  when it starts and is taken and released around each handler. In the finish case
  \<^verbatim>\<open>a.cancel()\<close> dereferences the answer that \<^verbatim>\<open>popAnswer\<close> returned.
\<close>

definition handleMessage :: "Message \<Rightarrow> Conn \<Rightarrow> go_panic + Conn" where
  "handleMessage m c =
     (case m of
        Message_unimplemented _ \<Rightarrow> Inr c
      | Message_abort x \<Rightarrow>
          (let (a, e) = copyAbort x;
               c1 = (case e of
                       Some e' \<Rightarrow> logln ''rpc: decode abort:'' (Some e') c
                     | None \<Rightarrow> c);
               c2 = logln [] (Some a) c1
           in Inr (snd (shutdown a c2)))
      | Message_return _ \<Rightarrow>
          (case handleReturnMessage (copyRPCMessage m) c of
             (Some e, c1) \<Rightarrow> Inr (logln ''rpc: handle return:'' (Some e) c1)
           | (None, c1) \<Rightarrow> Inr c1)
      | Message_finish x \<Rightarrow>
          (case x of
             Inl d \<Rightarrow> Inr (logln ''rpc: decode finish:'' (Some (Decode d)) c)
           | Inr mfin \<Rightarrow>
               (case popAnswer (fin_questionId mfin) c of
                  (None, c1) \<Rightarrow> Inl NilDereference
                | (Some a, c1) \<Rightarrow>
                    (let c2 = cancel (a_id a) c1
                     in Inr (if releaseResultCaps mfin then releaseExports (resultCaps a) c2
                             else c2))))
      | Message_bootstrap x \<Rightarrow>
          (case x of
             Inl d \<Rightarrow> Inr (logln ''rpc: decode bootstrap:'' (Some (Decode d)) c)
           | Inr i \<Rightarrow>
               (case handleBootstrapMessage i c of
                  (Some e, c1) \<Rightarrow> Inr (logln ''rpc: handle bootstrap:'' (Some e) c1)
                | (None, c1) \<Rightarrow> Inr c1))
      | Message_call _ \<Rightarrow>
          (case handleCallMessage (copyRPCMessage m) c of
             Inl p \<Rightarrow> Inl p
           | Inr (Some e, c1) \<Rightarrow> Inr (logln ''rpc: handle call:'' (Some e) c1)
           | Inr (None, c1) \<Rightarrow> Inr c1)
      | Message_release x \<Rightarrow>
          (case x of
             Inl d \<Rightarrow> Inr (logln ''rpc: decode release:'' (Some (Decode d)) c)
           | Inr rel \<Rightarrow> Inr (releaseExport (rel_id rel) (uint (referenceCount rel)) c))
      | Message_disembargo _ \<Rightarrow>
          (case handleDisembargoMessage m c of
             Inl p \<Rightarrow> Inl p
           | Inr (Some e, c1) \<Rightarrow> Inr (abort e c1)
           | Inr (None, c1) \<Rightarrow> Inr c1)
      | Message_other w \<Rightarrow>
          Inr (snd (sendMessage (newUnimplementedMessage m)
                      (logln ''rpc: received unimplemented message'' None c))))"

subsection \<open>Bootstrap and Close\<close>

text \<open>
  Which case of a \<^verbatim>\<open>select\<close> fires: the channel operation (the receive from the
  mutex, the send on the queue), \<^verbatim>\<open>ctx.Done()\<close>, or the manager's finish.
\<close>

datatype select_case = Select_chan | Select_ctxDone | Select_finish

text \<open>
  \<^verbatim>\<open>Bootstrap\<close>. \<open>ctx\<close> is the error of the caller's context, \<open>None\<close> while
  it is not done; \<open>s1\<close> and \<open>s2\<close> are the cases that fire in the two selects. The
  result is \<open>None\<close> when the chosen case cannot fire (the context is not done, the
  manager has not finished). The deferred unlock leaves the mutex free.
\<close>

definition Bootstrap ::
  "err option \<Rightarrow> select_case \<Rightarrow> select_case \<Rightarrow> Conn \<Rightarrow> (Client \<times> Conn) option" where
  "Bootstrap ctx s1 s2 c =
     (case s1 of
        Select_ctxDone \<Rightarrow> map_option (\<lambda>e. (ErrorClient e, c)) ctx
      | Select_finish \<Rightarrow> map_option (\<lambda>e. (ErrorClient e, c)) (manager c)
      | Select_chan \<Rightarrow>
          (let (q, c1) = newQuestion None c;
               msg = Message_bootstrap (Inr (q_id q))
           in case s2 of
                Select_chan \<Rightarrow>
                  Some (QuestionPipeline (q_id q) [],
                        question_start (q_id q) (c1\<lparr>out := out c1 @ [msg]\<rparr>))
              | Select_ctxDone \<Rightarrow>
                  map_option (\<lambda>e. (ErrorClient e, snd (popQuestion (q_id q) c1))) ctx
              | Select_finish \<Rightarrow>
                  map_option (\<lambda>e. (ErrorClient e, snd (popQuestion (q_id q) c1))) (manager c1)))"




section \<open>Notions used in the statements\<close>

text \<open>
  The connection in which the switch of \<^verbatim>\<open>handleReturnMessage\<close> runs: the
  question is popped and, if the return asks for it, its parameter caps are released.
\<close>

definition afterParamRelease :: "Return \<Rightarrow> question \<Rightarrow> Conn \<Rightarrow> Conn" where
  "afterParamRelease ret q c =
     (let c1 = snd (popQuestion (answerId ret) c)
      in if releaseParamCaps ret then releaseExports (paramCaps q) c1 else c1)"

text \<open>The messages a step put on the send queue: what \<open>out\<close> holds beyond its old length.\<close>

definition sentBy :: "Conn \<Rightarrow> Conn \<Rightarrow> Message list" where
  "sentBy c c' = drop (length (out c)) (out c')"



text \<open>
  The targets that \<^verbatim>\<open>routeCallMessage\<close> refuses with \<^verbatim>\<open>errBadTarget\<close> for the
  answer \<open>i\<close>: an export that is not in the table, a promised answer that is the
  new answer itself, and a promised answer that is not in the table.
\<close>

definition bad_target :: "MessageTarget \<Rightarrow> answerID \<Rightarrow> Conn \<Rightarrow> bool" where
  "bad_target mt i c =
     (case mt of
        MessageTarget_importedCap x \<Rightarrow> exports c x = None
      | MessageTarget_promisedAnswer (Inr pa) \<Rightarrow>
          pa_questionId pa = i \<or> answers c (pa_questionId pa) = None
      | _ \<Rightarrow> False)"

section \<open>Concrete connections and messages\<close>

text \<open>A running connection with empty tables and no bootstrap factory.\<close>

definition conn0 :: Conn where
  "conn0 =
     \<lparr>transport = \<lparr>t_sent = [], t_closed = False, t_sendErr = None, t_closeErr = None\<rparr>,
      mainFunc = None, manager = None, out = [],
      questions = Map.empty, questionID = \<lparr>g_count = 0, g_free = []\<rparr>,
      exports = Map.empty, exportID = \<lparr>g_count = 0, g_free = []\<rparr>,
      embargoes = Map.empty, embargoID = \<lparr>g_count = 0, g_free = []\<rparr>,
      answers = Map.empty, imports_tab = Map.empty, events = []\<rparr>"

text \<open>
  A connection with question 5 outstanding (a method call that sent export 7 as a
  parameter), export 7 held twice by the peer, and import 3 held once.
\<close>

definition question5 :: "qstate \<Rightarrow> question" where
  "question5 st =
     \<lparr>q_id = 5, q_method = Some (Method 10 2), paramCaps = [7], q_state = st, q_started = True\<rparr>"

definition conn_q5 :: "qstate \<Rightarrow> Conn" where
  "conn_q5 st =
     conn0\<lparr>questions := [5 \<mapsto> question5 st],
            questionID := \<lparr>g_count = 6, g_free = []\<rparr>,
            exports := [7 \<mapsto> \<lparr>e_client = LocalClient 1, e_refs = 2\<rparr>],
            exportID := \<lparr>g_count = 8, g_free = []\<rparr>,
            imports_tab := [3 \<mapsto> \<lparr>i_refs = 1\<rparr>]\<rparr>"

text \<open>A results payload that refers to import 3 and to export 7, and a return for
  question 5 that carries it.\<close>

definition payload37 :: Payload where
  "payload37 =
     Payload (Inr [CapDescriptor_senderHosted 3, CapDescriptor_receiverHosted 7])
             (Inr (StructPtr [InterfacePtr 0, InterfacePtr 1]))"

definition return5 :: "bool \<Rightarrow> Return" where
  "return5 rel = Return 5 rel (Return_results (Inr payload37))"

text \<open>A disembargo whose context is \<^verbatim>\<open>accept\<close>, and the contexts that are
  neither loopback.\<close>

definition accept_disembargo :: Message where
  "accept_disembargo =
     Message_disembargo (Inr (Disembargo (Inr (MessageTarget_importedCap 0)) Disembargo_accept))"

definition unsupported_context :: "Disembargo_context \<Rightarrow> bool" where
  "unsupported_context x =
     (case x of Disembargo_senderLoopback _ \<Rightarrow> False
      | Disembargo_receiverLoopback _ \<Rightarrow> False | _ \<Rightarrow> True)"

text \<open>
  A segment whose arena cannot hold the descriptor list, an empty payload, and a
  connection whose manager was shut down by an abort of the peer.
\<close>

definition small_segment :: Segment where
  "small_segment = \<lparr>seg_CapTable = [LocalClient 1, NilClient], seg_allocErr = Some (UserError 0)\<rparr>"

definition empty_payload :: PayloadBuilder where
  "empty_payload = \<lparr>pb_content = None, pb_capTable = None\<rparr>"

definition closedConn :: Conn where
  "closedConn = conn0\<lparr>manager := Some (Abort (Some (WireException ''oops'')))\<rparr>"


text \<open>
  A call message for the new answer 1, method 2 of interface 10, whose parameters are a
  struct with one capability pointer.
\<close>

definition call_msg :: "MessageTarget \<Rightarrow> CapDescriptor list \<Rightarrow> CallMsg" where
  "call_msg mt ctab =
     CallMsg 1 (Inr mt) 10 2 (Inr (Payload (Inr ctab) (Inr (StructPtr [InterfacePtr 0]))))"

section \<open>Frame lemmas\<close>

text \<open>What the table operations leave unchanged.\<close>

lemma releaseExport_frame [simp]:
  "out (releaseExport i n c) = out c"
  "events (releaseExport i n c) = events c"
  "manager (releaseExport i n c) = manager c"
  "imports_tab (releaseExport i n c) = imports_tab c"
  "answers (releaseExport i n c) = answers c"
  "questions (releaseExport i n c) = questions c"
  "transport (releaseExport i n c) = transport c"
  by (simp_all add: releaseExport_def findExport_def split: option.split)

lemma releaseExports_frame [simp]:
  "out (releaseExports ids c) = out c"
  "events (releaseExports ids c) = events c"
  "manager (releaseExports ids c) = manager c"
  "imports_tab (releaseExports ids c) = imports_tab c"
  "answers (releaseExports ids c) = answers c"
  "questions (releaseExports ids c) = questions c"
  "transport (releaseExports ids c) = transport c"
  unfolding releaseExports_def
  by (induction ids arbitrary: c) simp_all

lemma popQuestion_frame [simp]:
  "out (snd (popQuestion i c)) = out c"
  "events (snd (popQuestion i c)) = events c"
  "manager (snd (popQuestion i c)) = manager c"
  "imports_tab (snd (popQuestion i c)) = imports_tab c"
  "answers (snd (popQuestion i c)) = answers c"
  "exports (snd (popQuestion i c)) = exports c"
  "transport (snd (popQuestion i c)) = transport c"
  by (simp_all add: popQuestion_def split: option.split)

lemma afterParamRelease_frame [simp]:
  "out (afterParamRelease ret q c) = out c"
  "events (afterParamRelease ret q c) = events c"
  "manager (afterParamRelease ret q c) = manager c"
  "imports_tab (afterParamRelease ret q c) = imports_tab c"
  "answers (afterParamRelease ret q c) = answers c"
  by (simp_all add: afterParamRelease_def Let_def)

lemma addImport_frame [simp]:
  "out (snd (addImport i c)) = out c"
  "events (snd (addImport i c)) = events c"
  "manager (snd (addImport i c)) = manager c"
  "answers (snd (addImport i c)) = answers c"
  "exports (snd (addImport i c)) = exports c"
  "questions (snd (addImport i c)) = questions c"
  by (simp_all add: addImport_def Let_def)

lemma populateCaps_frame:
  "out (snd (snd (populateCaps ds caps c))) = out c \<and>
   manager (snd (snd (populateCaps ds caps c))) = manager c \<and>
   answers (snd (snd (populateCaps ds caps c))) = answers c \<and>
   exports (snd (snd (populateCaps ds caps c))) = exports c \<and>
   questions (snd (snd (populateCaps ds caps c))) = questions c \<and>
   events (snd (snd (populateCaps ds caps c))) =
     events c @ (if fst (populateCaps ds caps c) = Some errUnimplemented
                 then [Log ''rpc: unknown capability type'' None] else [])"
proof (induction ds caps c rule: populateCaps.induct)
  case (3 i ds caps c)
  then show ?case by (simp add: split_beta)
next
  case (4 i ds caps c)
  then show ?case by (simp add: split_beta)
next
  case (5 i ds caps c)
  then show ?case by (simp add: findExport_def split: option.split)
next
  case (6 x ds caps c)
  then show ?case by (simp add: split: sum.split option.split)
next
  case (7 ds caps c)
  then show ?case by (simp add: logln_def)
qed simp_all


lemma popQuestion_Some:
  "questions c i = Some q \<Longrightarrow>
   popQuestion i c = (Some q, snd (popQuestion i c))"
  by (simp add: popQuestion_def)


lemma abort_alive:
  "manager c = None \<Longrightarrow> abort e c = c\<lparr>out := out c @ [newAbortMessage e], manager := Some e\<rparr>"
  by (simp add: abort_def sendMessage_def shutdown_def)

lemma populate_frame:
  assumes "populateMessageCapTable p c = (r, caps, c')"
  shows "out c' = out c" and "manager c' = manager c" and "answers c' = answers c"
    and "exports c' = exports c" and "questions c' = questions c"
    and "events c' = events c @ (if r = Some errUnimplemented
                 then [Log ''rpc: unknown capability type'' None] else [])"
proof -
  show "out c' = out c" "manager c' = manager c" "answers c' = answers c"
     "exports c' = exports c" "questions c' = questions c"
    using assms populateCaps_frame [of "projr (capTable p)" "[]" c]
    by (auto simp: populateMessageCapTable_def split: sum.splits)
  show "events c' = events c @ (if r = Some errUnimplemented
                 then [Log ''rpc: unknown capability type'' None] else [])"
    using assms populateCaps_frame [of "projr (capTable p)" "[]" c]
    by (auto simp: populateMessageCapTable_def split: sum.splits)
qed



lemma sentBy_simps [simp]:
  "out c' = out c \<Longrightarrow> sentBy c c' = []"
  "out c' = out c @ ms \<Longrightarrow> sentBy c c' = ms"
  by (simp_all add: sentBy_def)



lemma releaseExport_exports_cong:
  "exports c = exports c' \<Longrightarrow> exports (releaseExport i n c) = exports (releaseExport i n c')"
  by (simp add: releaseExport_def findExport_def split: option.split)

lemma releaseExports_exports_cong:
  "exports c = exports c' \<Longrightarrow> exports (releaseExports ids c) = exports (releaseExports ids c')"
  unfolding releaseExports_def
proof (induction ids arbitrary: c c')
  case Nil
  then show ?case by simp
next
  case (Cons i ids)
  from Cons.prems have "exports (releaseExport i 1 c) = exports (releaseExport i 1 c')"
    by (rule releaseExport_exports_cong)
  then have "exports (fold (\<lambda>i. releaseExport i 1) ids (releaseExport i 1 c)) =
             exports (fold (\<lambda>i. releaseExport i 1) ids (releaseExport i 1 c'))"
    by (rule Cons.IH)
  then show ?case by simp
qed

lemma handleReturn_canceled:
  assumes "questions c (answerId ret) = Some q" and "q_state q = questionCanceled"
  shows "handleReturnMessage (Message_return (Inr ret)) c = (None, afterParamRelease ret q c)"
  using assms
  by (cases "releaseParamCaps ret")
     (simp_all add: handleReturnMessage_def Return_of_def popQuestion_def
        afterParamRelease_def Let_def split del: if_split)



section \<open>Return messages\<close>

text \<open>
  Claim C1, at a concrete input. Question 5 is canceled and a return for it arrives,
  with \<^verbatim>\<open>releaseParamCaps\<close> false and a results payload that refers to import 3
  (\<^verbatim>\<open>senderHosted\<close>) and export 7 (\<^verbatim>\<open>receiverHosted\<close>). The return is
  discarded and nothing is sent, but no capability of the payload is released: export 7
  keeps its two references and import 3 its one.
\<close>

theorem canceled_return_keeps_result_caps:
  "fst (handleReturnMessage (Message_return (Inr (return5 False))) (conn_q5 questionCanceled)) = None \<and>
   out (snd (handleReturnMessage (Message_return (Inr (return5 False))) (conn_q5 questionCanceled))) = [] \<and>
   exports (snd (handleReturnMessage (Message_return (Inr (return5 False))) (conn_q5 questionCanceled))) 7
     = Some \<lparr>e_client = LocalClient 1, e_refs = 2\<rparr> \<and>
   imports_tab (snd (handleReturnMessage (Message_return (Inr (return5 False))) (conn_q5 questionCanceled))) 3
     = Some \<lparr>i_refs = 1\<rparr>"
  by (simp add: handleReturnMessage_def Return_of_def popQuestion_def return5_def conn_q5_def
      conn0_def question5_def Let_def)


text \<open>
  Claim C1, amended. For every return received for a question whose state is canceled,
  the handler returns no error, removes the question, sends nothing (no second finish),
  neither fulfills nor rejects the question, leaves the manager, the imports and the
  answers as they were, and never reads the payload: the exports change only by the
  release of the question's own parameter caps, and only when the return sets
  \<^verbatim>\<open>releaseParamCaps\<close>.
\<close>

theorem canceled_return_is_discarded:
  assumes "questions c (answerId ret) = Some q" and "q_state q = questionCanceled"
    and "handleReturnMessage (Message_return (Inr ret)) c = (r, c')"
  shows "r = None \<and> out c' = out c \<and> events c' = events c \<and> manager c' = manager c \<and>
         imports_tab c' = imports_tab c \<and> answers c' = answers c \<and>
         questions c' (answerId ret) = None \<and>
         exports c' =
           (if releaseParamCaps ret then exports (releaseExports (paramCaps q) c) else exports c)"
proof -
  have h: "r = None" "c' = afterParamRelease ret q c"
    using handleReturn_canceled [OF assms(1,2)] assms(3) by simp_all
  have e: "exports (releaseExports (paramCaps q) (snd (popQuestion (answerId ret) c))) =
           exports (releaseExports (paramCaps q) c)"
    by (rule releaseExports_exports_cong) simp
  have q: "questions c' (answerId ret) = None"
    using assms(1) by (simp add: h afterParamRelease_def popQuestion_def Let_def)
  have x: "exports c' =
           (if releaseParamCaps ret then exports (releaseExports (paramCaps q) c) else exports c)"
    using e by (simp add: h afterParamRelease_def Let_def)
  show ?thesis using q x by (simp add: h)
qed


theorem canceled_return_is_discarded_witness:
  "questions (conn_q5 questionCanceled) (answerId (return5 True)) = Some (question5 questionCanceled) \<and>
   q_state (question5 questionCanceled) = questionCanceled \<and>
   fst (handleReturnMessage (Message_return (Inr (return5 True))) (conn_q5 questionCanceled)) = None \<and>
   out (snd (handleReturnMessage (Message_return (Inr (return5 True))) (conn_q5 questionCanceled))) = [] \<and>
   events (snd (handleReturnMessage (Message_return (Inr (return5 True))) (conn_q5 questionCanceled))) = [] \<and>
   exports (snd (handleReturnMessage (Message_return (Inr (return5 True))) (conn_q5 questionCanceled))) 7
     = Some \<lparr>e_client = LocalClient 1, e_refs = 1\<rparr> \<and>
   imports_tab (snd (handleReturnMessage (Message_return (Inr (return5 True))) (conn_q5 questionCanceled))) 3
     = Some \<lparr>i_refs = 1\<rparr>"
proof -
  let ?c = "conn_q5 questionCanceled"
  let ?h = "handleReturnMessage (Message_return (Inr (return5 True))) ?c"
  have k: "questions ?c (answerId (return5 True)) = Some (question5 questionCanceled)"
    by (simp add: conn_q5_def return5_def)
  have l: "q_state (question5 questionCanceled) = questionCanceled"
    by (simp add: question5_def)
  have run: "?h = (fst ?h, snd ?h)" by simp
  have x: "exports (releaseExports (paramCaps (question5 questionCanceled)) ?c) 7 =
           Some \<lparr>e_client = LocalClient 1, e_refs = 1\<rparr>"
    by (simp add: releaseExports_def releaseExport_def findExport_def question5_def conn_q5_def conn0_def)
  have i: "out ?c = []" "events ?c = []" "imports_tab ?c 3 = Some \<lparr>i_refs = 1\<rparr>"
    "releaseParamCaps (return5 True)"
    by (simp_all add: conn_q5_def conn0_def return5_def)
  show ?thesis
    using canceled_return_is_discarded [OF k l run] k l x i by simp
qed



section \<open>Decode failures and disembargo\<close>


lemma logln_frame [simp]:
  "manager (logln s e c) = manager c"
  "out (logln s e c) = out c"
  "answers (logln s e c) = answers c"
  "questions (logln s e c) = questions c"
  "exports (logln s e c) = exports c"
  "imports_tab (logln s e c) = imports_tab c"
  "events (logln s e c) = events c @ [Log s e]"
  by (simp_all add: logln_def)






text \<open>
  Claim C3, at a concrete input. A disembargo with the context \<^verbatim>\<open>accept\<close> and a
  target that decodes reaches a running connection: it is echoed as unimplemented and
  the manager is not shut down.
\<close>

theorem accept_disembargo_is_echoed:
  "handleMessage accept_disembargo conn0 =
     Inr (conn0\<lparr>out := [newUnimplementedMessage accept_disembargo]\<rparr>) \<and>
   manager (conn0\<lparr>out := [newUnimplementedMessage accept_disembargo]\<rparr>) = None"
  by (simp add: handleMessage_def handleDisembargoMessage_def Disembargo_of_def
      accept_disembargo_def sendMessage_def conn0_def)


text \<open>
  Claim C3, amended. On a running connection, every decoding error that
  \<^verbatim>\<open>handleDisembargoMessage\<close> meets aborts the connection with that error: of the
  body, of the target (whatever the context), of the promised answer of a
  \<^verbatim>\<open>senderLoopback\<close> target, and of its transform when the answer exists. A
  \<^verbatim>\<open>senderLoopback\<close> that names an unknown answer, or whose target is not a
  promised answer, aborts as well. A context other than the two loopbacks
  (\<^verbatim>\<open>accept\<close>, \<^verbatim>\<open>provide\<close>) whose target decodes is answered with an
  unimplemented echo and nothing else: the connection keeps running. An abort queues
  the abort message and shuts the manager down with the error.
\<close>

theorem disembargo_failures:
  assumes up: "manager c = None"
  shows
    "handleMessage (Message_disembargo (Inl d)) c = Inr (abort (Decode d) c) \<and>
     handleMessage (Message_disembargo (Inr (Disembargo (Inl d) x))) c = Inr (abort (Decode d) c) \<and>
     handleMessage (Message_disembargo (Inr (Disembargo
         (Inr (MessageTarget_promisedAnswer (Inl d))) (Disembargo_senderLoopback i)))) c
       = Inr (abort (Decode d) c) \<and>
     (answers c q \<noteq> None \<longrightarrow>
       handleMessage (Message_disembargo (Inr (Disembargo
           (Inr (MessageTarget_promisedAnswer (Inr (PromisedAnswer q (Inl d)))))
           (Disembargo_senderLoopback i)))) c
         = Inr (abort (Decode d) c)) \<and>
     (answers c q = None \<longrightarrow>
       handleMessage (Message_disembargo (Inr (Disembargo
           (Inr (MessageTarget_promisedAnswer (Inr (PromisedAnswer q tr))))
           (Disembargo_senderLoopback i)))) c
         = Inr (abort errDisembargoMissingAnswer c)) \<and>
     ((\<forall>p. t \<noteq> MessageTarget_promisedAnswer p) \<longrightarrow>
       handleMessage (Message_disembargo (Inr (Disembargo (Inr t) (Disembargo_senderLoopback i)))) c
         = Inr (abort errDisembargoNonImport c)) \<and>
     (unsupported_context x \<longrightarrow>
       handleMessage (Message_disembargo (Inr (Disembargo (Inr t) x))) c
         = Inr (c\<lparr>out := out c @
                  [newUnimplementedMessage (Message_disembargo (Inr (Disembargo (Inr t) x)))]\<rparr>)) \<and>
     (\<forall>e. manager (abort e c) = Some e \<and> out (abort e c) = out c @ [newAbortMessage e])"
proof -
  have body: "handleMessage (Message_disembargo (Inl d)) c = Inr (abort (Decode d) c)"
    by (simp add: handleMessage_def handleDisembargoMessage_def Disembargo_of_def)
  have target: "handleMessage (Message_disembargo (Inr (Disembargo (Inl d) x))) c
      = Inr (abort (Decode d) c)"
    by (simp add: handleMessage_def handleDisembargoMessage_def Disembargo_of_def)
  have promised: "handleMessage (Message_disembargo (Inr (Disembargo
         (Inr (MessageTarget_promisedAnswer (Inl d))) (Disembargo_senderLoopback i)))) c
       = Inr (abort (Decode d) c)"
    by (simp add: handleMessage_def handleDisembargoMessage_def Disembargo_of_def)
  have transform: "handleMessage (Message_disembargo (Inr (Disembargo
           (Inr (MessageTarget_promisedAnswer (Inr (PromisedAnswer q (Inl d)))))
           (Disembargo_senderLoopback i)))) c
         = Inr (abort (Decode d) c)" if "answers c q \<noteq> None"
    using that
    by (auto simp: handleMessage_def handleDisembargoMessage_def Disembargo_of_def)
  have missing: "handleMessage (Message_disembargo (Inr (Disembargo
           (Inr (MessageTarget_promisedAnswer (Inr (PromisedAnswer q tr))))
           (Disembargo_senderLoopback i)))) c
         = Inr (abort errDisembargoMissingAnswer c)" if "answers c q = None"
    using that
    by (simp add: handleMessage_def handleDisembargoMessage_def Disembargo_of_def)
  have nonimport: "handleMessage (Message_disembargo (Inr (Disembargo (Inr t)
         (Disembargo_senderLoopback i)))) c
         = Inr (abort errDisembargoNonImport c)" if "\<forall>p. t \<noteq> MessageTarget_promisedAnswer p"
    using that
    by (cases t) (simp_all add: handleMessage_def handleDisembargoMessage_def Disembargo_of_def)
  have echo: "handleMessage (Message_disembargo (Inr (Disembargo (Inr t) x))) c
         = Inr (c\<lparr>out := out c @
                  [newUnimplementedMessage (Message_disembargo (Inr (Disembargo (Inr t) x)))]\<rparr>)"
    if "unsupported_context x"
    using that up
    by (cases x)
       (simp_all add: handleMessage_def handleDisembargoMessage_def Disembargo_of_def
          unsupported_context_def sendMessage_def)
  have ab: "\<forall>e. manager (abort e c) = Some e \<and> out (abort e c) = out c @ [newAbortMessage e]"
    using up by (simp add: abort_alive)
  show ?thesis
    using body target promised transform missing nonimport echo ab by blast
qed


theorem disembargo_failures_witness:
  "manager conn0 = None \<and>
   handleMessage (Message_disembargo (Inr (Disembargo (Inl (DecodeError 2)) Disembargo_accept))) conn0
     = Inr (abort (Decode (DecodeError 2)) conn0) \<and>
   manager (abort (Decode (DecodeError 2)) conn0) = Some (Decode (DecodeError 2)) \<and>
   answers conn0 4 = None \<and>
   handleMessage (Message_disembargo (Inr (Disembargo
       (Inr (MessageTarget_promisedAnswer (Inr (PromisedAnswer 4 (Inr [])))))
       (Disembargo_senderLoopback 1)))) conn0
     = Inr (abort errDisembargoMissingAnswer conn0) \<and>
   unsupported_context (Disembargo_provide 9) \<and>
   handleMessage (Message_disembargo (Inr (Disembargo (Inr (MessageTarget_importedCap 0))
       (Disembargo_provide 9)))) conn0
     = Inr (conn0\<lparr>out := out conn0 @
         [newUnimplementedMessage (Message_disembargo (Inr (Disembargo
            (Inr (MessageTarget_importedCap 0)) (Disembargo_provide 9))))]\<rparr>)"
proof -
  have up: "manager conn0 = None" by (simp add: conn0_def)
  have a: "answers conn0 4 = None" by (simp add: conn0_def)
  have u: "unsupported_context (Disembargo_provide 9)" by (simp add: unsupported_context_def)
  show ?thesis
    using disembargo_failures [OF up, where d = "DecodeError 2" and x = Disembargo_accept
        and q = 4 and tr = "Inr []" and i = 1]
      disembargo_failures [OF up, where x = "Disembargo_provide 9"
        and t = "MessageTarget_importedCap 0"]
      up a u
    by simp
qed

section \<open>Bootstrap, Close and the outbound capability table\<close>

text \<open>
  Claim C8. The case that fires in each \<^verbatim>\<open>select\<close> of \<^verbatim>\<open>Bootstrap\<close> is a
  parameter. If the first select is won by the manager's finish, the result is an error
  client that carries the manager's terminal error and the connection is untouched. If
  the lock is taken and the enqueue fails, because the context is done or because the
  manager has finished, the result is an error client with the context's or the
  manager's error, and the question that was just allocated is no longer in the
  question table, every other question being as before and nothing being queued. When
  the enqueue succeeds the question stays and the bootstrap message is queued.
\<close>

theorem Bootstrap_error_paths:
  "(manager c = Some e \<longrightarrow> Bootstrap ctx Select_finish s2 c = Some (ErrorClient e, c)) \<and>
   (\<exists>c'. Bootstrap (Some e) Select_chan Select_ctxDone c = Some (ErrorClient e, c') \<and>
         questions c' (fst (idgen_next (questionID c))) = None \<and>
         (\<forall>k. k \<noteq> fst (idgen_next (questionID c)) \<longrightarrow> questions c' k = questions c k) \<and>
         out c' = out c \<and> manager c' = manager c) \<and>
   (manager c = Some e \<longrightarrow>
     (\<exists>c'. Bootstrap ctx Select_chan Select_finish c = Some (ErrorClient e, c') \<and>
         questions c' (fst (idgen_next (questionID c))) = None \<and>
         (\<forall>k. k \<noteq> fst (idgen_next (questionID c)) \<longrightarrow> questions c' k = questions c k) \<and>
         out c' = out c \<and> manager c' = manager c)) \<and>
   (\<exists>c'. Bootstrap ctx Select_chan Select_chan c =
           Some (QuestionPipeline (fst (idgen_next (questionID c))) [], c') \<and>
         questions c' (fst (idgen_next (questionID c))) \<noteq> None \<and>
         out c' = out c @ [Message_bootstrap (Inr (fst (idgen_next (questionID c))))])"
  by (auto simp: Bootstrap_def newQuestion_def popQuestion_def question_start_def
      split_beta Let_def)


theorem Bootstrap_error_paths_witness:
  "manager closedConn = Some (Abort (Some (WireException ''oops''))) \<and>
   Bootstrap None Select_finish Select_chan closedConn =
     Some (ErrorClient (Abort (Some (WireException ''oops''))), closedConn) \<and>
   fst (idgen_next (questionID closedConn)) = 0 \<and>
   map_option fst (Bootstrap None Select_chan Select_finish closedConn)
     = Some (ErrorClient (Abort (Some (WireException ''oops'')))) \<and>
   map_option (\<lambda>r. questions (snd r) 0) (Bootstrap None Select_chan Select_finish closedConn)
     = Some None"
proof -
  have m: "manager closedConn = Some (Abort (Some (WireException ''oops'')))"
    by (simp add: closedConn_def)
  have i: "fst (idgen_next (questionID closedConn)) = 0"
    by (simp add: closedConn_def conn0_def idgen_next_def)
  note t = Bootstrap_error_paths [where c = closedConn
      and e = "Abort (Some (WireException ''oops''))" and ctx = None and ?s2.0 = Select_chan]
  have a: "Bootstrap None Select_finish Select_chan closedConn =
     Some (ErrorClient (Abort (Some (WireException ''oops''))), closedConn)"
    using t m by blast
  obtain c' where b: "Bootstrap None Select_chan Select_finish closedConn =
           Some (ErrorClient (Abort (Some (WireException ''oops''))), c')"
      "questions c' (fst (idgen_next (questionID closedConn))) = None"
    using t m by blast
  show ?thesis
    using m i a b by simp
qed









text \<open>
  Claim C10. If the allocation of the descriptor list fails, \<^verbatim>\<open>makeCapTable\<close>
  returns the empty list and a nil error and leaves the connection unchanged; so
  \<^verbatim>\<open>fillParams\<close>, when placing the parameters and both setters succeed, returns a
  nil error with the payload's capability table set to the empty list.
\<close>

theorem makeCapTable_swallows_allocation_failure:
  assumes "seg_allocErr s = Some e"
  shows "makeCapTable s c = (([], None), c) \<and>
         fillParams s (Inr params) None None payload c =
           ((None, payload\<lparr>pb_content := Some params, pb_capTable := Some []\<rparr>), c)"
  using assms by (simp add: makeCapTable_def fillParams_def NewCapDescriptor_List_def)


theorem makeCapTable_swallows_allocation_failure_witness:
  "seg_allocErr small_segment = Some (UserError 0) \<and>
   makeCapTable small_segment conn0 = (([], None), conn0) \<and>
   fillParams small_segment (Inr (StructPtr [InterfacePtr 0])) None None empty_payload conn0 =
     ((None, \<lparr>pb_content = Some (StructPtr [InterfacePtr 0]), pb_capTable = Some []\<rparr>), conn0)"
proof -
  have a: "seg_allocErr small_segment = Some (UserError 0)"
    by (simp add: small_segment_def)
  show ?thesis
    using makeCapTable_swallows_allocation_failure
        [OF a, where c = conn0 and params = "StructPtr [InterfacePtr 0]" and payload = empty_payload]
      a
    by (simp add: empty_payload_def)
qed


section \<open>Bootstrap and call messages\<close>

text \<open>Building the outbound capability table only touches the export table.\<close>

lemma addExport_frame [simp]:
  "out (snd (addExport cl c)) = out c"
  "manager (snd (addExport cl c)) = manager c"
  "answers (snd (addExport cl c)) = answers c"
  "events (snd (addExport cl c)) = events c"
  "questions (snd (addExport cl c)) = questions c"
  "imports_tab (snd (addExport cl c)) = imports_tab c"
  by (simp_all add: addExport_def split_beta split: option.split)

lemma descriptorForClient_frame [simp]:
  "out (snd (descriptorForClient cl c)) = out c"
  "manager (snd (descriptorForClient cl c)) = manager c"
  "answers (snd (descriptorForClient cl c)) = answers c"
  "events (snd (descriptorForClient cl c)) = events c"
  "questions (snd (descriptorForClient cl c)) = questions c"
  "imports_tab (snd (descriptorForClient cl c)) = imports_tab c"
  by (simp_all add: descriptorForClient_def split_beta split: Client.split)

lemma makeDescriptors_frame [simp]:
  "out (snd (makeDescriptors cls c)) = out c"
  "manager (snd (makeDescriptors cls c)) = manager c"
  "answers (snd (makeDescriptors cls c)) = answers c"
  "events (snd (makeDescriptors cls c)) = events c"
  by (induction cls arbitrary: c) (simp_all add: split_beta)

lemma makeCapTable_frame [simp]:
  "out (snd (makeCapTable s c)) = out c"
  "manager (snd (makeCapTable s c)) = manager c"
  "answers (snd (makeCapTable s c)) = answers c"
  "events (snd (makeCapTable s c)) = events c"
  by (simp_all add: makeCapTable_def split_beta Let_def split: option.split)

lemma insertAnswer_fresh:
  "answers c i = None \<Longrightarrow>
   insertAnswer i c =
     (Some \<lparr>a_id = i, a_resolution = Pending, a_queue = [], a_disembargoes = [], resultCaps = []\<rparr>,
      c\<lparr>answers := (answers c)(i \<mapsto>
          \<lparr>a_id = i, a_resolution = Pending, a_queue = [], a_disembargoes = [], resultCaps = []\<rparr>)\<rparr>)"
  by (simp add: insertAnswer_def Let_def)


lemma answer_reject_idle:
  assumes "answers c i = Some a" and "a_queue a = []" and "a_disembargoes a = []"
    and "manager c = None"
  shows "answer_reject i e c =
     (None, c\<lparr>answers := (answers c)(i \<mapsto>
                  a\<lparr>a_resolution := Rejected e, a_queue := [], a_disembargoes := []\<rparr>),
              out := out c @ [newReturnMessage i (setReturnException e)]\<rparr>)"
  using assms by (simp add: answer_reject_def sendMessage_def drainQueue_def)




text \<open>Routing a call: an error leaves the tables as they were, and the answer is rejected.\<close>

lemma populateCaps_append:
  "populateCaps (pre @ ds) caps c =
     (case populateCaps pre caps c of
        (None, caps', c') \<Rightarrow> populateCaps ds caps' c'
      | (Some e, caps', c') \<Rightarrow> (Some e, caps', c'))"
proof (induction pre caps c rule: populateCaps.induct)
  case (3 i ds caps c)
  then show ?case by (simp add: split_beta)
next
  case (4 i ds caps c)
  then show ?case by (simp add: split_beta)
next
  case (5 i ds caps c)
  then show ?case by (simp split: option.split)
next
  case (6 x ds caps c)
  then show ?case by (simp split: sum.split option.split)
qed simp_all

lemma populateCaps_exports_answers:
  assumes "populateCaps ds caps c = (r, caps', c')"
  shows "exports c' = exports c" and "answers c' = answers c"
  using assms populateCaps_frame [of ds caps c] by auto

lemma routeCallMessage_error:
  "routeCallMessage i mt cl c = Inr (Some e, c3) \<Longrightarrow> c3 = c"
  by (auto simp: routeCallMessage_def queueCall_def Let_def
      split: MessageTarget.splits option.splits sum.splits if_splits prod.splits bool.splits)

lemma routeCallMessage_bad_target:
  "bad_target mt i c \<Longrightarrow> routeCallMessage i mt cl c = Inr (Some errBadTarget, c)"
  by (auto simp: bad_target_def routeCallMessage_def findExport_def Let_def
      split: MessageTarget.splits sum.splits)

lemma handleCall_routed:
  assumes tgt: "call_target mcall = Inr mt" and sup: "mt \<noteq> MessageTarget_other"
    and par: "call_params mcall = Inr mparams"
    and pop: "populateMessageCapTable mparams c = (None, caps, c1)"
    and fresh: "answers c (call_questionId mcall) = None"
    and cont: "content mparams = Inr pc"
  shows "handleCallMessage (Message_call (Inr mcall)) c =
     (case routeCallMessage (call_questionId mcall) mt
             (Call (Method (call_interfaceId mcall) (call_methodId mcall)) (Ptr pc caps))
             (snd (insertAnswer (call_questionId mcall) c1)) of
        Inl p \<Rightarrow> Inl p
      | Inr (Some e, c3) \<Rightarrow> Inr (answer_reject (call_questionId mcall) e c3)
      | Inr (None, c3) \<Rightarrow> Inr (None, c3))"
proof -
  have "answers c1 (call_questionId mcall) = None"
    using populate_frame(3) [OF pop] fresh by simp
  then show ?thesis
    using tgt sup par pop cont
    by (simp add: handleCallMessage_def Call_of_def insertAnswer_fresh Let_def)
qed

lemma handleCall_rejected:
  assumes up: "manager c = None"
    and tgt: "call_target mcall = Inr mt" and sup: "mt \<noteq> MessageTarget_other"
    and par: "call_params mcall = Inr mparams"
    and pop: "populateMessageCapTable mparams c = (None, caps, c1)"
    and fresh: "answers c (call_questionId mcall) = None"
    and cont: "content mparams = Inr pc"
    and route: "routeCallMessage (call_questionId mcall) mt
             (Call (Method (call_interfaceId mcall) (call_methodId mcall)) (Ptr pc caps))
             (snd (insertAnswer (call_questionId mcall) c1)) = Inr (Some e, c3)"
  shows "handleCallMessage (Message_call (Inr mcall)) c =
     Inr (None, c1\<lparr>answers := (answers c)(call_questionId mcall \<mapsto>
                      \<lparr>a_id = call_questionId mcall, a_resolution = Rejected e, a_queue = [],
                        a_disembargoes = [], resultCaps = []\<rparr>),
                   out := out c @ [newReturnMessage (call_questionId mcall) (setReturnException e)]\<rparr>)"
proof -
  let ?i = "call_questionId mcall"
  let ?a = "\<lparr>a_id = ?i, a_resolution = Pending, a_queue = [], a_disembargoes = [], resultCaps = []\<rparr>"
  note f = populate_frame [OF pop]
  have a1: "answers c1 ?i = None" using f(3) fresh by simp
  have c3: "c3 = c1\<lparr>answers := (answers c1)(?i \<mapsto> ?a)\<rparr>"
    using routeCallMessage_error [OF route] a1 by (simp add: insertAnswer_fresh)
  have q: "answers c3 ?i = Some ?a" "a_queue ?a = []" "a_disembargoes ?a = []" "manager c3 = None"
    using c3 f(2) up by simp_all
  show ?thesis
    using handleCall_routed [OF tgt sup par pop fresh cont] route
      answer_reject_idle [OF q, of e] c3 f(1,3)
    by simp
qed

text \<open>
  Claim C5. A call message received on a running connection, whose target is an imported
  capability or a promised answer. An error of \<^verbatim>\<open>routeCallMessage\<close> rejects the new
  answer with that error, returns it to the peer as an exception, and the connection keeps
  running; so it is for a target that is an unknown export, an unknown promised answer or
  the new answer itself, with \<^verbatim>\<open>errBadTarget\<close>. An error of
  \<^verbatim>\<open>populateMessageCapTable\<close> other than \<^verbatim>\<open>errUnimplemented\<close> aborts the
  connection with that error and inserts no answer; so it is for a descriptor that names an
  unknown export ID or an unknown answer ID.
\<close>

theorem call_routing_error_and_cap_table_violation:
  assumes up: "manager c = None"
    and tgt: "call_target mcall = Inr mt" and sup: "mt \<noteq> MessageTarget_other"
    and par: "call_params mcall = Inr mparams"
  shows
    "(\<forall>caps c1 pc e c3.
        populateMessageCapTable mparams c = (None, caps, c1) \<and>
        answers c (call_questionId mcall) = None \<and>
        content mparams = Inr pc \<and>
        routeCallMessage (call_questionId mcall) mt
          (Call (Method (call_interfaceId mcall) (call_methodId mcall)) (Ptr pc caps))
          (snd (insertAnswer (call_questionId mcall) c1)) = Inr (Some e, c3) \<longrightarrow>
        (\<exists>c'. handleCallMessage (Message_call (Inr mcall)) c = Inr (None, c') \<and>
              manager c' = None \<and>
              map_option a_resolution (answers c' (call_questionId mcall)) = Some (Rejected e) \<and>
              sentBy c c' = [newReturnMessage (call_questionId mcall) (setReturnException e)])) \<and>
     (\<forall>caps c1 pc.
        populateMessageCapTable mparams c = (None, caps, c1) \<and>
        answers c (call_questionId mcall) = None \<and>
        content mparams = Inr pc \<and>
        bad_target mt (call_questionId mcall) c \<longrightarrow>
        (\<exists>c'. handleCallMessage (Message_call (Inr mcall)) c = Inr (None, c') \<and>
              manager c' = None \<and>
              map_option a_resolution (answers c' (call_questionId mcall))
                = Some (Rejected errBadTarget) \<and>
              sentBy c c' =
                [newReturnMessage (call_questionId mcall) (setReturnException errBadTarget)])) \<and>
     (\<forall>e caps c1.
        populateMessageCapTable mparams c = (Some e, caps, c1) \<and> e \<noteq> errUnimplemented \<longrightarrow>
        handleCallMessage (Message_call (Inr mcall)) c = Inr (Some e, abort e c1) \<and>
        manager (abort e c1) = Some e \<and>
        sentBy c (abort e c1) = [newAbortMessage e] \<and>
        answers (abort e c1) = answers c) \<and>
     (\<forall>pre x post caps0 c0.
        capTable mparams = Inr (pre @ CapDescriptor_receiverHosted x # post) \<and>
        populateCaps pre [] c = (None, caps0, c0) \<and> exports c x = None \<longrightarrow>
        (\<exists>c'. handleCallMessage (Message_call (Inr mcall)) c
                 = Inr (Some (CapTableUnknownExport x), c') \<and>
              manager c' = Some (CapTableUnknownExport x) \<and>
              sentBy c c' = [newAbortMessage (CapTableUnknownExport x)])) \<and>
     (\<forall>pre q tr post caps0 c0.
        capTable mparams = Inr (pre @ CapDescriptor_receiverAnswer (Inr (PromisedAnswer q tr)) # post) \<and>
        populateCaps pre [] c = (None, caps0, c0) \<and> answers c q = None \<longrightarrow>
        (\<exists>c'. handleCallMessage (Message_call (Inr mcall)) c
                 = Inr (Some (CapTableUnknownAnswer q), c') \<and>
              manager c' = Some (CapTableUnknownAnswer q) \<and>
              sentBy c c' = [newAbortMessage (CapTableUnknownAnswer q)]))"
proof -
  let ?i = "call_questionId mcall"
  let ?m = "Message_call (Inr mcall)"
  have rejected: "\<exists>c'. handleCallMessage ?m c = Inr (None, c') \<and> manager c' = None \<and>
        map_option a_resolution (answers c' ?i) = Some (Rejected e) \<and>
        sentBy c c' = [newReturnMessage ?i (setReturnException e)]"
    if pop: "populateMessageCapTable mparams c = (None, caps, c1)"
      and fresh: "answers c ?i = None" and cont: "content mparams = Inr pc"
      and route: "routeCallMessage ?i mt
          (Call (Method (call_interfaceId mcall) (call_methodId mcall)) (Ptr pc caps))
          (snd (insertAnswer ?i c1)) = Inr (Some e, c3)"
    for caps c1 pc e c3
    using handleCall_rejected [OF up tgt sup par pop fresh cont route]
      populate_frame(2) [OF pop] up
    by simp
  have bad: "\<exists>c'. handleCallMessage ?m c = Inr (None, c') \<and> manager c' = None \<and>
        map_option a_resolution (answers c' ?i) = Some (Rejected errBadTarget) \<and>
        sentBy c c' = [newReturnMessage ?i (setReturnException errBadTarget)]"
    if pop: "populateMessageCapTable mparams c = (None, caps, c1)"
      and fresh: "answers c ?i = None" and cont: "content mparams = Inr pc"
      and b: "bad_target mt ?i c"
    for caps c1 pc
  proof -
    note f = populate_frame [OF pop]
    have a1: "answers c1 ?i = None" using f(3) fresh by simp
    have "bad_target mt ?i (snd (insertAnswer ?i c1))"
      using b f(3,4) a1
      by (auto simp: bad_target_def insertAnswer_fresh split: MessageTarget.splits sum.splits)
    then show ?thesis
      using rejected [OF pop fresh cont routeCallMessage_bad_target] by blast
  qed
  have violation: "handleCallMessage ?m c = Inr (Some e, abort e c1) \<and>
        manager (abort e c1) = Some e \<and>
        sentBy c (abort e c1) = [newAbortMessage e] \<and>
        answers (abort e c1) = answers c"
    if pop: "populateMessageCapTable mparams c = (Some e, caps, c1)" and e: "e \<noteq> errUnimplemented"
    for e caps c1
  proof -
    note f = populate_frame [OF pop]
    have m: "manager c1 = None" using f(2) up by simp
    show ?thesis
      using tgt sup par pop e f(1,3) m
      by (simp add: handleCallMessage_def Call_of_def abort_alive)
  qed
  have unknown_export: "\<exists>c'. handleCallMessage ?m c = Inr (Some (CapTableUnknownExport x), c') \<and>
        manager c' = Some (CapTableUnknownExport x) \<and>
        sentBy c c' = [newAbortMessage (CapTableUnknownExport x)]"
    if ct: "capTable mparams = Inr (pre @ CapDescriptor_receiverHosted x # post)"
      and pre: "populateCaps pre [] c = (None, caps0, c0)" and ex: "exports c x = None"
    for pre x post caps0 c0
  proof -
    have "exports c0 x = None"
      using populateCaps_exports_answers(1) [OF pre] ex by simp
    then have "populateMessageCapTable mparams c = (Some (CapTableUnknownExport x), caps0, c0)"
      using ct pre by (simp add: populateMessageCapTable_def populateCaps_append findExport_def)
    from violation [OF this] show ?thesis by auto
  qed
  have unknown_answer: "\<exists>c'. handleCallMessage ?m c = Inr (Some (CapTableUnknownAnswer q), c') \<and>
        manager c' = Some (CapTableUnknownAnswer q) \<and>
        sentBy c c' = [newAbortMessage (CapTableUnknownAnswer q)]"
    if ct: "capTable mparams = Inr (pre @ CapDescriptor_receiverAnswer (Inr (PromisedAnswer q tr)) # post)"
      and pre: "populateCaps pre [] c = (None, caps0, c0)" and an: "answers c q = None"
    for pre q tr post caps0 c0
  proof -
    have "answers c0 q = None"
      using populateCaps_exports_answers(2) [OF pre] an by simp
    then have "populateMessageCapTable mparams c = (Some (CapTableUnknownAnswer q), caps0, c0)"
      using ct pre by (simp add: populateMessageCapTable_def populateCaps_append)
    from violation [OF this] show ?thesis by auto
  qed
  have 1: "\<forall>caps c1 pc e c3.
        populateMessageCapTable mparams c = (None, caps, c1) \<and>
        answers c (call_questionId mcall) = None \<and>
        content mparams = Inr pc \<and>
        routeCallMessage (call_questionId mcall) mt
          (Call (Method (call_interfaceId mcall) (call_methodId mcall)) (Ptr pc caps))
          (snd (insertAnswer (call_questionId mcall) c1)) = Inr (Some e, c3) \<longrightarrow>
        (\<exists>c'. handleCallMessage (Message_call (Inr mcall)) c = Inr (None, c') \<and>
              manager c' = None \<and>
              map_option a_resolution (answers c' (call_questionId mcall)) = Some (Rejected e) \<and>
              sentBy c c' = [newReturnMessage (call_questionId mcall) (setReturnException e)])"
    by (intro allI impI, elim conjE, rule rejected; assumption)
  have 2: "\<forall>caps c1 pc.
        populateMessageCapTable mparams c = (None, caps, c1) \<and>
        answers c (call_questionId mcall) = None \<and>
        content mparams = Inr pc \<and>
        bad_target mt (call_questionId mcall) c \<longrightarrow>
        (\<exists>c'. handleCallMessage (Message_call (Inr mcall)) c = Inr (None, c') \<and>
              manager c' = None \<and>
              map_option a_resolution (answers c' (call_questionId mcall))
                = Some (Rejected errBadTarget) \<and>
              sentBy c c' =
                [newReturnMessage (call_questionId mcall) (setReturnException errBadTarget)])"
    by (intro allI impI, elim conjE, rule bad; assumption)
  have 3: "\<forall>e caps c1.
        populateMessageCapTable mparams c = (Some e, caps, c1) \<and> e \<noteq> errUnimplemented \<longrightarrow>
        handleCallMessage (Message_call (Inr mcall)) c = Inr (Some e, abort e c1) \<and>
        manager (abort e c1) = Some e \<and>
        sentBy c (abort e c1) = [newAbortMessage e] \<and>
        answers (abort e c1) = answers c"
    by (intro allI impI, elim conjE, rule violation; assumption)
  have 4: "\<forall>pre x post caps0 c0.
        capTable mparams = Inr (pre @ CapDescriptor_receiverHosted x # post) \<and>
        populateCaps pre [] c = (None, caps0, c0) \<and> exports c x = None \<longrightarrow>
        (\<exists>c'. handleCallMessage (Message_call (Inr mcall)) c
                 = Inr (Some (CapTableUnknownExport x), c') \<and>
              manager c' = Some (CapTableUnknownExport x) \<and>
              sentBy c c' = [newAbortMessage (CapTableUnknownExport x)])"
    by (intro allI impI, elim conjE, rule unknown_export; assumption)
  have 5: "\<forall>pre q tr post caps0 c0.
        capTable mparams = Inr (pre @ CapDescriptor_receiverAnswer (Inr (PromisedAnswer q tr)) # post) \<and>
        populateCaps pre [] c = (None, caps0, c0) \<and> answers c q = None \<longrightarrow>
        (\<exists>c'. handleCallMessage (Message_call (Inr mcall)) c
                 = Inr (Some (CapTableUnknownAnswer q), c') \<and>
              manager c' = Some (CapTableUnknownAnswer q) \<and>
              sentBy c c' = [newAbortMessage (CapTableUnknownAnswer q)])"
    by (intro allI impI, elim conjE, rule unknown_answer; assumption)
  show ?thesis
    by (rule conjI [OF 1 conjI [OF 2 conjI [OF 3 conjI [OF 4 5]]]])
qed

theorem call_routing_error_and_cap_table_violation_witness:
  "manager conn0 = None \<and>
   bad_target (MessageTarget_importedCap 9) 1 conn0 \<and>
   (\<exists>c'. handleCallMessage (Message_call (Inr (call_msg (MessageTarget_importedCap 9) []))) conn0
            = Inr (None, c') \<and>
         manager c' = None \<and>
         map_option a_resolution (answers c' 1) = Some (Rejected errBadTarget) \<and>
         sentBy conn0 c' = [newReturnMessage 1 (setReturnException errBadTarget)]) \<and>
   exports conn0 9 = None \<and>
   (\<exists>c'. handleCallMessage
            (Message_call (Inr (call_msg (MessageTarget_importedCap 9)
               [CapDescriptor_none, CapDescriptor_receiverHosted 9]))) conn0
            = Inr (Some (CapTableUnknownExport 9), c') \<and>
         manager c' = Some (CapTableUnknownExport 9) \<and>
         sentBy conn0 c' = [newAbortMessage (CapTableUnknownExport 9)])"
proof -
  let ?mt = "MessageTarget_importedCap 9"
  have up: "manager conn0 = None" by (simp add: conn0_def)
  have b: "bad_target ?mt 1 conn0" by (simp add: bad_target_def conn0_def)
  have x: "exports conn0 9 = None" by (simp add: conn0_def)
  have sup: "?mt \<noteq> MessageTarget_other" by simp
  have tgt: "call_target (call_msg ?mt ds) = Inr ?mt" for ds
    by (simp add: call_msg_def)
  have par: "call_params (call_msg ?mt ds)
      = Inr (Payload (Inr ds) (Inr (StructPtr [InterfacePtr 0])))" for ds
    by (simp add: call_msg_def)
  have i: "call_questionId (call_msg ?mt ds) = 1" for ds
    by (simp add: call_msg_def)
  have p: "populateMessageCapTable (Payload (Inr []) (Inr (StructPtr [InterfacePtr 0]))) conn0
      = (None, [], conn0)"
    by (simp add: populateMessageCapTable_def)
  have a: "answers conn0 1 = None" by (simp add: conn0_def)
  have first: "\<exists>c'. handleCallMessage (Message_call (Inr (call_msg ?mt []))) conn0
            = Inr (None, c') \<and>
         manager c' = None \<and>
         map_option a_resolution (answers c' 1) = Some (Rejected errBadTarget) \<and>
         sentBy conn0 c' = [newReturnMessage 1 (setReturnException errBadTarget)]"
    using call_routing_error_and_cap_table_violation [OF up tgt sup par, of "[]"] p a b
    by (simp add: i)
  have pre: "populateCaps [CapDescriptor_none] [] conn0 = (None, [NilClient], conn0)"
    by simp
  have second: "\<exists>c'. handleCallMessage
            (Message_call (Inr (call_msg ?mt [CapDescriptor_none, CapDescriptor_receiverHosted 9])))
            conn0
            = Inr (Some (CapTableUnknownExport 9), c') \<and>
         manager c' = Some (CapTableUnknownExport 9) \<and>
         sentBy conn0 c' = [newAbortMessage (CapTableUnknownExport 9)]"
    using call_routing_error_and_cap_table_violation
        [OF up tgt sup par, of "[CapDescriptor_none, CapDescriptor_receiverHosted 9]",
         THEN conjunct2, THEN conjunct2, THEN conjunct2, THEN conjunct1, rule_format,
         of "[CapDescriptor_none]" 9 "[]" "[NilClient]" conn0]
      pre x
    by simp
  show ?thesis
    using up b x first second by simp
qed

text \<open>
  Claim C7. A call message received on a running connection, whose target is a promised
  answer with the question ID of the call itself: the new answer is rejected with
  \<^verbatim>\<open>errBadTarget\<close>, which is returned to the peer as an exception, and the connection
  stays up. No call is made (the trace of events is unchanged), the queue of the new answer
  is empty and no other answer is changed.
\<close>

theorem call_on_own_answer_is_rejected:
  assumes up: "manager c = None"
    and tgt: "call_target mcall = Inr (MessageTarget_promisedAnswer (Inr pa))"
    and own: "pa_questionId pa = call_questionId mcall"
    and par: "call_params mcall = Inr mparams"
    and pop: "populateMessageCapTable mparams c = (None, caps, c1)"
    and fresh: "answers c (call_questionId mcall) = None"
    and cont: "content mparams = Inr pc"
  shows "\<exists>c'. handleCallMessage (Message_call (Inr mcall)) c = Inr (None, c') \<and>
              manager c' = None \<and>
              answers c' (call_questionId mcall) =
                Some \<lparr>a_id = call_questionId mcall, a_resolution = Rejected errBadTarget,
                      a_queue = [], a_disembargoes = [], resultCaps = []\<rparr> \<and>
              (\<forall>k. k \<noteq> call_questionId mcall \<longrightarrow> answers c' k = answers c k) \<and>
              events c' = events c \<and>
              sentBy c c' =
                [newReturnMessage (call_questionId mcall) (setReturnException errBadTarget)]"
proof -
  let ?i = "call_questionId mcall"
  let ?mt = "MessageTarget_promisedAnswer (Inr pa)"
  have sup: "?mt \<noteq> MessageTarget_other" by simp
  have b: "bad_target ?mt ?i (snd (insertAnswer ?i c1))"
    using own by (simp add: bad_target_def)
  note h = handleCall_rejected [OF up tgt sup par pop fresh cont routeCallMessage_bad_target [OF b]]
  note f = populate_frame [OF pop]
  show ?thesis
    using h f(2,6) up by simp
qed

theorem call_on_own_answer_is_rejected_witness:
  "manager conn0 = None \<and> answers conn0 1 = None \<and>
   (\<exists>c'. handleCallMessage
            (Message_call (Inr (call_msg
               (MessageTarget_promisedAnswer (Inr (PromisedAnswer 1 (Inr [])))) []))) conn0
            = Inr (None, c') \<and>
         manager c' = None \<and>
         answers c' 1 =
           Some \<lparr>a_id = 1, a_resolution = Rejected errBadTarget,
                 a_queue = [], a_disembargoes = [], resultCaps = []\<rparr> \<and>
         events c' = [] \<and>
         sentBy conn0 c' = [newReturnMessage 1 (setReturnException errBadTarget)])"
proof -
  let ?pa = "PromisedAnswer 1 (Inr [])"
  let ?mc = "call_msg (MessageTarget_promisedAnswer (Inr ?pa)) []"
  have up: "manager conn0 = None" by (simp add: conn0_def)
  have a: "answers conn0 1 = None" by (simp add: conn0_def)
  have tgt: "call_target ?mc = Inr (MessageTarget_promisedAnswer (Inr ?pa))"
    by (simp add: call_msg_def)
  have own: "pa_questionId ?pa = call_questionId ?mc" by (simp add: call_msg_def)
  have par: "call_params ?mc = Inr (Payload (Inr []) (Inr (StructPtr [InterfacePtr 0])))"
    by (simp add: call_msg_def)
  have p: "populateMessageCapTable (Payload (Inr []) (Inr (StructPtr [InterfacePtr 0]))) conn0
      = (None, [], conn0)"
    by (simp add: populateMessageCapTable_def)
  have fresh: "answers conn0 (call_questionId ?mc) = None"
    by (simp add: call_msg_def conn0_def)
  have cont: "content (Payload (Inr []) (Inr (StructPtr [InterfacePtr 0])))
      = Inr (StructPtr [InterfacePtr 0])"
    by simp
  have i: "call_questionId ?mc = 1" by (simp add: call_msg_def)
  have e: "events conn0 = []" by (simp add: conn0_def)
  show ?thesis
    using call_on_own_answer_is_rejected [OF up tgt own par p fresh cont] up a
    by (auto simp: i e)
qed

end
